theory Spec2Isabelle
  imports Main "HOL-Library.Word"
begin

section \<open>Bytes and the cryptographic library\<close>

text \<open>
  \<^verbatim>\<open>bytes\<close> values are lists of octets. Text values (\<^verbatim>\<open>str\<close>) are \<open>string\<close>s.
\<close>

type_synonym byte = "8 word"
type_synonym bytes = "byte list"

text \<open>
  The dictionary returned by \<^verbatim>\<open>encrypt_file_content\<close> and stored under the key
  \<^verbatim>\<open>"encryption"\<close>. The first seven fields are always written by \<^verbatim>\<open>encrypt_file_content\<close>;
  \<open>hardware_id_hash\<close> and \<open>hardware_bound\<close> are keys that may or may not be present
  (\<open>None\<close>: the key is absent).
\<close>

record envelope =
  ciphertext :: string
  nonce :: string
  salt :: string
  encryption_time :: string
  encryption_method :: string
  kdf_method :: string
  kdf_iterations :: int
  hardware_id_hash :: "string option"
  hardware_bound :: "bool option"

text \<open>
  \<^verbatim>\<open>EncryptionManager\<close> is built on primitives of the \<^verbatim>\<open>cryptography\<close>, \<^verbatim>\<open>base64\<close>
  and \<^verbatim>\<open>hashlib\<close> packages, which are not part of the repository. They are taken as
  parameters, gathered in one record:

  \<^item> \<open>pbkdf2\<close>: \<^verbatim>\<open>PBKDF2HMAC(SHA256, length=32, salt, iterations=100000).derive(password.encode('utf-8'))\<close>;
  \<^item> \<open>aesgcm_encrypt key nonce data\<close>: \<^verbatim>\<open>AESGCM(key).encrypt(nonce, data, None)\<close>;
  \<^item> \<open>aesgcm_decrypt key nonce ct\<close>: \<^verbatim>\<open>AESGCM(key).decrypt(nonce, ct, None)\<close>, \<open>None\<close> when the
    call raises (the tag does not verify, or the nonce is refused);
  \<^item> \<open>b64encode\<close>: \<^verbatim>\<open>base64.b64encode(x).decode('utf-8')\<close>;
  \<^item> \<open>b64decode\<close>: \<^verbatim>\<open>base64.b64decode(s)\<close>, \<open>None\<close> when it raises \<^verbatim>\<open>binascii.Error\<close>
    (a subclass of \<^verbatim>\<open>ValueError\<close>);
  \<^item> \<open>sha256\<close>: the SHA-256 digest of a byte string;
  \<^item> \<open>envelope_hexdigest\<close>:
    \<^verbatim>\<open>hashlib.sha256(json.dumps(encryption_data, sort_keys=True).encode('utf-8')).hexdigest()\<close>.
\<close>

record crypto_lib =
  pbkdf2 :: "string \<Rightarrow> bytes \<Rightarrow> bytes"
  aesgcm_encrypt :: "bytes \<Rightarrow> bytes \<Rightarrow> bytes \<Rightarrow> bytes"
  aesgcm_decrypt :: "bytes \<Rightarrow> bytes \<Rightarrow> bytes \<Rightarrow> bytes option"
  b64encode :: "bytes \<Rightarrow> string"
  b64decode :: "string \<Rightarrow> bytes option"
  sha256 :: "bytes \<Rightarrow> bytes"
  envelope_hexdigest :: "envelope \<Rightarrow> string"

text \<open>
  The contract of the library that the round trip relies on: AES-GCM decryption inverts
  encryption under the same key and nonce, and Base64 decoding inverts encoding.
\<close>

definition aead_correct :: "'a crypto_lib_scheme \<Rightarrow> bool" where
  "aead_correct L \<longleftrightarrow> (\<forall>k n d. aesgcm_decrypt L k n (aesgcm_encrypt L k n d) = Some d)"

definition b64_correct :: "'a crypto_lib_scheme \<Rightarrow> bool" where
  "b64_correct L \<longleftrightarrow> (\<forall>x. b64decode L (b64encode L x) = Some x)"

section \<open>EncryptionManager (src/crypto/encryption.py)\<close>

definition PBKDF2_ITERATIONS :: int where
  "PBKDF2_ITERATIONS = 100000"

definition derive_key :: "'a crypto_lib_scheme \<Rightarrow> string \<Rightarrow> bytes \<Rightarrow> bytes" where
  "derive_key L password slt = pbkdf2 L password slt"

text \<open>
  \<^verbatim>\<open>encrypt_data\<close> draws its nonce from \<^verbatim>\<open>os.urandom(12)\<close>; the drawn value is the
  argument \<open>nonce_bytes\<close>. The result is the pair (ciphertext, nonce).
\<close>

definition encrypt_data :: "'a crypto_lib_scheme \<Rightarrow> bytes \<Rightarrow> bytes \<Rightarrow> bytes \<Rightarrow> bytes \<times> bytes" where
  "encrypt_data L nonce_bytes data key = (aesgcm_encrypt L key nonce_bytes data, nonce_bytes)"

text \<open>\<open>None\<close> is the \<^verbatim>\<open>ValueError("Decryption failed: ...")\<close> of the source.\<close>

definition decrypt_data :: "'a crypto_lib_scheme \<Rightarrow> bytes \<times> bytes \<Rightarrow> bytes \<Rightarrow> bytes option" where
  "decrypt_data L encrypted_data key =
     (case encrypted_data of (ct, nonce_bytes) \<Rightarrow> aesgcm_decrypt L key nonce_bytes ct)"

text \<open>
  \<^verbatim>\<open>encrypt_file_content\<close>: \<open>salt_bytes\<close> is the value of \<^verbatim>\<open>os.urandom(32)\<close>,
  \<open>nonce_bytes\<close> that of \<^verbatim>\<open>os.urandom(12)\<close> and \<open>now_iso\<close> that of
  \<^verbatim>\<open>datetime.now().isoformat()\<close>.
\<close>

definition encrypt_file_content ::
  "'a crypto_lib_scheme \<Rightarrow> bytes \<Rightarrow> bytes \<Rightarrow> string \<Rightarrow> bytes \<Rightarrow> string \<Rightarrow> envelope" where
  "encrypt_file_content L salt_bytes nonce_bytes now_iso content password =
     (let key = derive_key L password salt_bytes;
          encrypted_data = encrypt_data L nonce_bytes content key
      in \<lparr> ciphertext = b64encode L (fst encrypted_data),
           nonce = b64encode L (snd encrypted_data),
           salt = b64encode L salt_bytes,
           encryption_time = now_iso,
           encryption_method = ''AES-256-GCM'',
           kdf_method = ''PBKDF2-HMAC-SHA256'',
           kdf_iterations = PBKDF2_ITERATIONS,
           hardware_id_hash = None,
           hardware_bound = None \<rparr>)"

text \<open>
  \<^verbatim>\<open>decrypt_file_content\<close>: the three Base64 fields are decoded in the order of the source,
  the key is derived from the password and the decoded salt, and the ciphertext is
  decrypted. \<open>None\<close> is a raised \<^verbatim>\<open>ValueError\<close> (from Base64 decoding or from
  \<^verbatim>\<open>decrypt_data\<close>); callers catch exactly that class.
\<close>

definition decrypt_file_content :: "'a crypto_lib_scheme \<Rightarrow> 'b envelope_scheme \<Rightarrow> string \<Rightarrow> bytes option" where
  "decrypt_file_content L encrypted_content password =
     (case b64decode L (ciphertext encrypted_content) of
        None \<Rightarrow> None
      | Some ct \<Rightarrow>
          (case b64decode L (nonce encrypted_content) of
             None \<Rightarrow> None
           | Some nonce_bytes \<Rightarrow>
               (case b64decode L (salt encrypted_content) of
                  None \<Rightarrow> None
                | Some salt_bytes \<Rightarrow>
                    decrypt_data L (ct, nonce_bytes) (derive_key L password salt_bytes))))"

subsection \<open>A small executable instance of the library\<close>

text \<open>
  The instance below is not AES-GCM: it is the smallest library that meets the contract
  and rejects a wrong key, so that the theorems can be run on concrete inputs. The
  "ciphertext" is the data followed by the key as a tag; "Base64" writes each octet as
  one character; the "digest" of a content is the octet of \<open>H\<close> followed by its first three
  octets.
\<close>

definition toy_kdf :: "string \<Rightarrow> bytes \<Rightarrow> bytes" where
  "toy_kdf password slt = map (\<lambda>c. of_nat (of_char c)) password @ slt"

definition toy_encrypt :: "bytes \<Rightarrow> bytes \<Rightarrow> bytes \<Rightarrow> bytes" where
  "toy_encrypt key nonce_bytes data = data @ key"

definition toy_decrypt :: "bytes \<Rightarrow> bytes \<Rightarrow> bytes \<Rightarrow> bytes option" where
  "toy_decrypt key nonce_bytes ct =
     (if length key \<le> length ct \<and> drop (length ct - length key) ct = key
      then Some (take (length ct - length key) ct) else None)"

definition toy_b64encode :: "bytes \<Rightarrow> string" where
  "toy_b64encode bs = map (\<lambda>b. char_of (unat b)) bs"

definition toy_b64decode :: "string \<Rightarrow> bytes option" where
  "toy_b64decode s = Some (map (\<lambda>c. of_nat (of_char c)) s)"

definition toy_sha256 :: "bytes \<Rightarrow> bytes" where
  "toy_sha256 bs = 72 # take 3 bs"

definition toy_hexdigest :: "envelope \<Rightarrow> string" where
  "toy_hexdigest e = ''h'' @ take 3 (ciphertext e)"

definition toy_lib :: crypto_lib where
  "toy_lib = \<lparr> pbkdf2 = toy_kdf, aesgcm_encrypt = toy_encrypt, aesgcm_decrypt = toy_decrypt,
               b64encode = toy_b64encode, b64decode = toy_b64decode,
               sha256 = toy_sha256, envelope_hexdigest = toy_hexdigest \<rparr>"

section \<open>FileManager (BAR/src/file_manager/file_manager.py)\<close>

subsection \<open>Metadata, policy and the store\<close>

text \<open>
  Time stamps are stored as ISO-8601 text and parsed with \<^verbatim>\<open>datetime.fromisoformat\<close>
  before every comparison. The model keeps the parsed value: a number of microseconds
  (the resolution of \<^verbatim>\<open>datetime\<close>) since a fixed origin. \<open>creation_time\<close> is never
  parsed by the file manager and stays text.
\<close>

type_synonym timestamp = int

definition MICROSECONDS_PER_DAY :: int where
  "MICROSECONDS_PER_DAY = 86400000000"

text \<open>
  The \<^verbatim>\<open>"security"\<close> dictionary. \<open>None\<close> is the JSON \<^verbatim>\<open>null\<close> the file manager
  writes for a constraint that is not set (an empty expiration text is read the same
  way).
\<close>

record security_policy =
  expiration_time :: "timestamp option"
  max_access_count :: "int option"
  deadman_switch :: "int option"
  disable_export :: bool

text \<open>
  One metadata dictionary, with the value types the file manager writes. The keys
  \<^verbatim>\<open>"content_hash"\<close> and \<^verbatim>\<open>"failed_password_attempts"\<close> are absent (\<open>None\<close>) from an
  entry written by \<^verbatim>\<open>create_secure_file\<close>.
\<close>

record metadata =
  file_id :: string
  filename :: string
  creation_time :: string
  last_accessed :: timestamp
  access_count :: int
  file_type :: string
  security :: security_policy
  encryption :: envelope
  content_hash :: "string option"
  failed_password_attempts :: "int option"

text \<open>
  A file of the metadata directory: its parsed content and whether the process may open
  it for writing. A file of the blacklist directory holds one blacklist entry.
\<close>

record meta_file =
  meta :: metadata
  writable :: bool

record blacklist_entry =
  bl_content_hash :: string
  bl_filename :: string
  bl_file_id :: string
  blacklisted_at :: timestamp
  bl_reason :: string
  original_creation_time :: string

text \<open>
  The state the file manager owns: the metadata directory, keyed by file id (the file
  \<^verbatim>\<open>{file_id}.json\<close>), the blacklist directory, keyed by file name, and the daemon threads
  started by \<^verbatim>\<open>access_file\<close> that have not run yet (each runs
  \<^verbatim>\<open>_secure_delete_file(file_id)\<close>). \<open>blacklist_openable name\<close> says whether the
  environment lets \<^verbatim>\<open>open(blacklist_path, "w")\<close> succeed for the file \<open>name\<close> of the
  blacklist directory; it fails, for instance, for a name longer than the file system
  allows or in a directory that cannot be written.
\<close>

record vault =
  metadata_files :: "string \<rightharpoonup> meta_file"
  blacklist_files :: "string \<rightharpoonup> blacklist_entry"
  blacklist_openable :: "string \<Rightarrow> bool"
  scheduled :: "string list"

text \<open>
  Exceptions that leave the file manager. The source raises \<^verbatim>\<open>ValueError\<close> with a
  message for most of them; one constructor stands for one message:
  \<^item> \<open>FileNotFound\<close>: \<^verbatim>\<open>FileNotFoundError("File with ID ... not found")\<close>;
  \<^item> \<open>PolicyViolation\<close>: \<^verbatim>\<open>ValueError("File has expired or reached maximum access count")\<close>;
  \<^item> \<open>IncorrectPassword n\<close>:
    \<^verbatim>\<open>ValueError("Incorrect password. n attempts remaining before permanent deletion")\<close>;
  \<^item> \<open>PermanentlyDeleted\<close>:
    \<^verbatim>\<open>ValueError("File has been permanently deleted after 3 failed password attempts")\<close>;
  \<^item> \<open>PermissionDenied\<close>: the \<^verbatim>\<open>PermissionError\<close> of \<^verbatim>\<open>open(metadata_path, "w")\<close>;
  \<^item> \<open>ViewOnly\<close>:
    \<^verbatim>\<open>ValueError("This file has been marked as view-only and cannot be exported")\<close>;
  \<^item> \<open>ExportIncorrectPassword\<close>: \<^verbatim>\<open>ValueError("Incorrect password")\<close> of the export;
  \<^item> \<open>ImportFailed cause\<close>: \<^verbatim>\<open>ValueError("Failed to import file: " + str(cause))\<close>, the
    wrapper \<^verbatim>\<open>import_portable_file\<close> puts around every exception.

  The causes inside \<open>ImportFailed\<close>:
  \<^item> \<open>NotValidBarFile\<close>: \<^verbatim>\<open>ValueError("Not a valid BAR portable file")\<close>;
  \<^item> \<open>Blacklisted\<close>: \<^verbatim>\<open>ValueError("This file has been permanently deleted due to security violations and cannot be reimported")\<close>;
  \<^item> \<open>IncorrectPasswordOrBinding\<close>:
    \<^verbatim>\<open>ValueError("Incorrect password or incompatible hardware binding")\<close>;
  \<^item> \<open>ImportIncorrectPassword\<close>: \<^verbatim>\<open>ValueError("Incorrect password")\<close>;
  \<^item> \<open>KeyError k\<close>: a key read with \<^verbatim>\<open>[...]\<close> is missing;
  \<^item> \<open>ImportPermissionDenied\<close>: the metadata file cannot be opened for writing.

  In the vocabulary of the specification, \<open>IncorrectPassword\<close>, \<open>IncorrectPasswordOrBinding\<close>
  and \<open>ImportIncorrectPassword\<close> are its AuthenticationError, \<open>PermanentlyDeleted\<close> its
  PermanentlyDeletedError, \<open>PolicyViolation\<close> and \<open>ViewOnly\<close> its PolicyError,
  \<open>Blacklisted\<close> its BlacklistedError and \<open>NotValidBarFile\<close> its ValidationError.
\<close>

datatype import_failure =
    NotValidBarFile
  | Blacklisted
  | IncorrectPasswordOrBinding
  | ImportIncorrectPassword
  | KeyError string
  | ImportPermissionDenied

datatype error =
    FileNotFound
  | PolicyViolation
  | IncorrectPassword int
  | PermanentlyDeleted
  | PermissionDenied
  | ViewOnly
  | ExportIncorrectPassword
  | ImportFailed import_failure

text \<open>Truth values of Python: \<^verbatim>\<open>None\<close>, \<^verbatim>\<open>0\<close>, \<^verbatim>\<open>""\<close> and \<^verbatim>\<open>False\<close> are false.\<close>

definition truthy_int :: "int option \<Rightarrow> bool" where
  "truthy_int v = (case v of None \<Rightarrow> False | Some n \<Rightarrow> n \<noteq> 0)"

definition truthy_str :: "string option \<Rightarrow> bool" where
  "truthy_str v = (case v of None \<Rightarrow> False | Some s \<Rightarrow> s \<noteq> [])"

definition truthy_bool :: "bool option \<Rightarrow> bool" where
  "truthy_bool v = (case v of None \<Rightarrow> False | Some b \<Rightarrow> b)"

subsection \<open>Constraint evaluation\<close>

text \<open>
  \<^verbatim>\<open>_check_security_constraints\<close>; \<open>current_time\<close> is the value of \<^verbatim>\<open>datetime.now()\<close>.
  \<^verbatim>\<open>(current_time - last_accessed).days\<close> is the floor of the difference in days, which is
  what \<open>div\<close> computes on \<open>int\<close>. The result is \<open>True\<close> when the file can be accessed and
  \<open>False\<close> when it should be deleted.
\<close>

definition inactive_days :: "timestamp \<Rightarrow> timestamp \<Rightarrow> int" where
  "inactive_days current_time accessed = (current_time - accessed) div MICROSECONDS_PER_DAY"

definition check_security_constraints :: "timestamp \<Rightarrow> metadata \<Rightarrow> bool" where
  "check_security_constraints current_time m =
     (if (case expiration_time (security m) of
            None \<Rightarrow> False
          | Some expiration \<Rightarrow> current_time > expiration)
      then False
      else if truthy_int (max_access_count (security m)) \<and>
              (case max_access_count (security m) of
                 None \<Rightarrow> False
               | Some limit \<Rightarrow> access_count m \<ge> limit)
      then False
      else if truthy_int (deadman_switch (security m)) \<and>
              (case deadman_switch (security m) of
                 None \<Rightarrow> False
               | Some days \<Rightarrow> inactive_days current_time (last_accessed m) > days)
      then False
      else True)"

text \<open>
  The conditions in the words of the specification: an entry is expired if now is after
  its expiration time, exhausted if a maximum access count is set and the access count
  has reached it, and its dead-man switch is triggered if one is set and the whole days
  since the last access exceed it. Any of the three mandates destruction.
\<close>

definition expired :: "timestamp \<Rightarrow> security_policy \<Rightarrow> bool" where
  "expired now p = (case expiration_time p of None \<Rightarrow> False | Some t \<Rightarrow> now > t)"

definition exhausted :: "security_policy \<Rightarrow> int \<Rightarrow> bool" where
  "exhausted p count = (case max_access_count p of None \<Rightarrow> False | Some n \<Rightarrow> count \<ge> n)"

definition deadman_triggered :: "timestamp \<Rightarrow> security_policy \<Rightarrow> timestamp \<Rightarrow> bool" where
  "deadman_triggered now p accessed =
     (case deadman_switch p of
        None \<Rightarrow> False
      | Some d \<Rightarrow> (now - accessed) div MICROSECONDS_PER_DAY > d)"

definition mandates_destruction :: "timestamp \<Rightarrow> security_policy \<Rightarrow> timestamp \<Rightarrow> int \<Rightarrow> bool" where
  "mandates_destruction now p accessed count \<longleftrightarrow>
     expired now p \<or> exhausted p count \<or> deadman_triggered now p accessed"

text \<open>
  The data model of the specification: a maximum access count and a dead-man period,
  when set, are positive integers.
\<close>

definition policy_in_data_model :: "security_policy \<Rightarrow> bool" where
  "policy_in_data_model p \<longleftrightarrow>
     (case max_access_count p of None \<Rightarrow> True | Some n \<Rightarrow> n > 0) \<and>
     (case deadman_switch p of None \<Rightarrow> True | Some d \<Rightarrow> d > 0)"

subsection \<open>Content hash and blacklist\<close>

text \<open>\<^verbatim>\<open>_hash_content\<close>: the Base64 text of the SHA-256 digest of the content.\<close>

definition hash_content :: "'a crypto_lib_scheme \<Rightarrow> bytes \<Rightarrow> string" where
  "hash_content L content = b64encode L (sha256 L content)"

text \<open>
  \<^verbatim>\<open>re.sub(r'[^a-zA-Z0-9_-]', '_', content_hash)\<close>, followed by the file name
  \<^verbatim>\<open>f"{safe_hash}.json"\<close> inside the blacklist directory.
\<close>

definition safe_char :: "char \<Rightarrow> bool" where
  "safe_char c \<longleftrightarrow>
     (let n = (of_char c :: nat)
      in (97 \<le> n \<and> n \<le> 122) \<or> (65 \<le> n \<and> n \<le> 90) \<or> (48 \<le> n \<and> n \<le> 57)
         \<or> c = CHR ''_'' \<or> c = CHR ''-'')"

definition safe_hash :: "string \<Rightarrow> string" where
  "safe_hash h = map (\<lambda>c. if safe_char c then c else CHR ''_'') h"

definition blacklist_path :: "string \<Rightarrow> string" where
  "blacklist_path h = safe_hash h @ ''.json''"

text \<open>
  \<^verbatim>\<open>_add_to_blacklist\<close>. When the metadata has no (or an empty) content hash, the hash
  of the serialised encryption dictionary is used in its place; the metadata always
  has the key \<^verbatim>\<open>"encryption"\<close>, a dictionary. If there is still no hash the function
  returns \<^verbatim>\<open>False\<close> and writes nothing. The whole body runs inside
  \<^verbatim>\<open>try ... except Exception: return False\<close>: when the blacklist file cannot be opened
  for writing the exception is logged, nothing is written and the result is \<^verbatim>\<open>False\<close>.
  \<open>now\<close> is \<^verbatim>\<open>datetime.now()\<close>.
\<close>

definition add_to_blacklist ::
  "'a crypto_lib_scheme \<Rightarrow> timestamp \<Rightarrow> vault \<Rightarrow> metadata \<Rightarrow> bool \<times> vault" where
  "add_to_blacklist L now s m =
     (let h0 = content_hash m;
          h1 = (if \<not> truthy_str h0 then Some (envelope_hexdigest L (encryption m)) else h0)
      in case h1 of
           None \<Rightarrow> (False, s)
         | Some h \<Rightarrow>
             if h = [] then (False, s)
             else if \<not> blacklist_openable s (blacklist_path h) then (False, s)
             else
               (let blacklist_entry =
                      \<lparr> bl_content_hash = h,
                        bl_filename = filename m,
                        bl_file_id = file_id m,
                        blacklisted_at = now,
                        bl_reason = ''security_violation'',
                        original_creation_time = creation_time m \<rparr>
                in (True, s\<lparr>blacklist_files :=
                              (blacklist_files s)(blacklist_path h \<mapsto> blacklist_entry)\<rparr>)))"

text \<open>\<^verbatim>\<open>_is_blacklisted\<close>: the file named after the hash exists in the blacklist directory.\<close>

definition is_blacklisted :: "vault \<Rightarrow> string \<Rightarrow> bool" where
  "is_blacklisted s h = (blacklist_files s (blacklist_path h) \<noteq> None)"

subsection \<open>Deletion\<close>

text \<open>
  What \<^verbatim>\<open>SecureDelete.secure_delete_file\<close> does to a file of the metadata directory, when
  the only step that can fail is opening the file for writing: a missing file gives
  \<^verbatim>\<open>False\<close>; a file that cannot be opened makes \<^verbatim>\<open>open(file_path, "r+b")\<close> raise, the
  handler returns \<^verbatim>\<open>False\<close> and the file stays; otherwise the file is overwritten,
  truncated and removed and the result is \<^verbatim>\<open>True\<close>. The function never raises. (The
  overwriting itself is modelled on byte contents in the section on SecureDelete.)
\<close>

definition secure_delete_metadata_file :: "vault \<Rightarrow> string \<Rightarrow> bool \<times> vault" where
  "secure_delete_metadata_file s fid =
     (case metadata_files s fid of
        None \<Rightarrow> (False, s)
      | Some f \<Rightarrow>
          if writable f
          then (True, s\<lparr>metadata_files := (metadata_files s)(fid := None)\<rparr>)
          else (False, s))"

text \<open>
  \<^verbatim>\<open>FileManager._secure_delete_file(file_id, blacklist)\<close>. The metadata is read, the entry
  is blacklisted when \<open>blacklist\<close> is set, and the metadata file is handed to
  \<^verbatim>\<open>secure_delete_file\<close>, whose result is not looked at. The \<^verbatim>\<open>except\<close> branch around that
  call (\<^verbatim>\<open>os.remove\<close> as a fallback) is entered only by an exception, and
  \<^verbatim>\<open>secure_delete_file\<close> raises none, so the branch has no counterpart here. The copies
  the source also looks for (\<^verbatim>\<open>exports/\<close>, \<^verbatim>\<open>temp/\<close>, \<^verbatim>\<open>portable/\<close>, other volumes) lie
  outside the two directories of \<open>vault\<close>.
\<close>

definition manager_secure_delete_file ::
  "'a crypto_lib_scheme \<Rightarrow> timestamp \<Rightarrow> vault \<Rightarrow> string \<Rightarrow> bool \<Rightarrow> bool \<times> vault" where
  "manager_secure_delete_file L now s fid blacklist =
     (if fid = [] then (False, s)
      else case metadata_files s fid of
             None \<Rightarrow> (False, s)
           | Some f \<Rightarrow>
               (let s1 = (if blacklist then snd (add_to_blacklist L now s (meta f)) else s);
                    s2 = snd (secure_delete_metadata_file s1 fid)
                in (True, s2)))"

text \<open>\<^verbatim>\<open>_delete_file\<close>: the ordinary removal of the metadata file.\<close>

definition delete_file :: "vault \<Rightarrow> string \<Rightarrow> bool \<times> vault" where
  "delete_file s fid =
     (case metadata_files s fid of
        None \<Rightarrow> (False, s)
      | Some f \<Rightarrow> (True, s\<lparr>metadata_files := (metadata_files s)(fid := None)\<rparr>))"

subsection \<open>Access\<close>

text \<open>
  \<^verbatim>\<open>open(metadata_path, "w")\<close> followed by \<^verbatim>\<open>json.dump\<close>: \<open>None\<close> when the file exists and
  cannot be opened for writing.
\<close>

definition write_metadata :: "vault \<Rightarrow> string \<Rightarrow> metadata \<Rightarrow> vault option" where
  "write_metadata s fid m =
     (case metadata_files s fid of
        None \<Rightarrow>
          Some (s\<lparr>metadata_files := (metadata_files s)(fid \<mapsto> \<lparr>meta = m, writable = True\<rparr>)\<rparr>)
      | Some f \<Rightarrow>
          if writable f
          then Some (s\<lparr>metadata_files := (metadata_files s)(fid \<mapsto> f\<lparr>meta := m\<rparr>)\<rparr>)
          else None)"

definition max_failed_attempts :: int where
  "max_failed_attempts = 3"

text \<open>
  \<^verbatim>\<open>access_file(file_id, password)\<close>. The result is the raised exception or the returned
  pair (content, metadata), together with the store after the call. All readings of
  \<^verbatim>\<open>datetime.now()\<close> during one call are the one value \<open>now\<close>. The thread started on the
  last access is recorded in \<open>scheduled\<close>; it has not run when the call returns.
\<close>

definition access_file ::
  "'a crypto_lib_scheme \<Rightarrow> timestamp \<Rightarrow> vault \<Rightarrow> string \<Rightarrow> string
     \<Rightarrow> (error + bytes \<times> metadata) \<times> vault" where
  "access_file L now s fid password =
     (case metadata_files s fid of
        None \<Rightarrow> (Inl FileNotFound, s)
      | Some f \<Rightarrow>
          if \<not> check_security_constraints now (meta f)
          then (Inl PolicyViolation, snd (manager_secure_delete_file L now s fid True))
          else
            (let attempts = (case failed_password_attempts (meta f) of None \<Rightarrow> 0 | Some n \<Rightarrow> n)
             in case decrypt_file_content L (encryption (meta f)) password of
                  None \<Rightarrow>
                    (let m1 = (meta f)\<lparr>failed_password_attempts := Some (attempts + 1)\<rparr>
                     in case write_metadata s fid m1 of
                          None \<Rightarrow> (Inl PermissionDenied, s)
                        | Some s1 \<Rightarrow>
                            if attempts + 1 \<ge> max_failed_attempts
                            then (Inl PermanentlyDeleted,
                                  snd (manager_secure_delete_file L now s1 fid True))
                            else (Inl (IncorrectPassword (max_failed_attempts - (attempts + 1))), s1))
                | Some file_content \<Rightarrow>
                    (let m1 = (meta f)\<lparr>failed_password_attempts := Some 0,
                                        last_accessed := now,
                                        access_count := access_count (meta f) + 1\<rparr>
                     in case write_metadata s fid m1 of
                          None \<Rightarrow> (Inl PermissionDenied, s)
                        | Some s1 \<Rightarrow>
                            (let s2 =
                               (if truthy_int (max_access_count (security m1)) \<and>
                                   (case max_access_count (security m1) of
                                      None \<Rightarrow> False
                                    | Some limit \<Rightarrow> access_count m1 \<ge> limit)
                                then s1\<lparr>scheduled := scheduled s1 @ [fid]\<rparr>
                                else s1)
                             in (Inr (file_content, m1), s2)))))"

text \<open>
  One round of \<^verbatim>\<open>_monitor_files\<close> over the listing \<open>fids\<close> of the metadata directory: a
  file that has gone in the meantime is skipped (the exception is logged), a file whose
  constraints fail is destroyed under the id its metadata names.
\<close>

fun monitor_files :: "'a crypto_lib_scheme \<Rightarrow> timestamp \<Rightarrow> vault \<Rightarrow> string list \<Rightarrow> vault" where
  "monitor_files L now s [] = s"
| "monitor_files L now s (fid # fids) =
     (case metadata_files s fid of
        None \<Rightarrow> monitor_files L now s fids
      | Some f \<Rightarrow>
          if \<not> check_security_constraints now (meta f)
          then monitor_files L now
                 (snd (manager_secure_delete_file L now s (file_id (meta f)) True)) fids
          else monitor_files L now s fids)"

subsection \<open>Creation\<close>

text \<open>
  The \<^verbatim>\<open>security_settings\<close> dictionary passed to \<^verbatim>\<open>create_secure_file\<close>: a missing key and
  a key whose value is \<^verbatim>\<open>None\<close> are read alike by \<^verbatim>\<open>.get\<close>, except for
  \<^verbatim>\<open>"disable_export"\<close>, whose presence is tested (\<open>None\<close>: the key is absent).
\<close>

record security_settings =
  set_expiration_time :: "timestamp option"
  set_max_access_count :: "int option"
  set_deadman_switch :: "int option"
  set_disable_export :: "bool option"

text \<open>
  \<^verbatim>\<open>create_secure_file\<close>. \<open>new_id\<close> is the value of \<^verbatim>\<open>_generate_file_id()\<close> (a UUID),
  \<open>is_media\<close> that of \<^verbatim>\<open>_is_media_file(filename, content)\<close>; \<open>salt_bytes\<close> and
  \<open>nonce_bytes\<close> are the random draws of the encryption, \<open>now_iso\<close> is the text of
  \<open>now\<close>. The metadata written has no \<^verbatim>\<open>"content_hash"\<close> and no
  \<^verbatim>\<open>"failed_password_attempts"\<close> key. \<open>None\<close>: the metadata file could not be opened.
\<close>

definition create_secure_file ::
  "'a crypto_lib_scheme \<Rightarrow> timestamp \<Rightarrow> string \<Rightarrow> string \<Rightarrow> bool \<Rightarrow> bytes \<Rightarrow> bytes
     \<Rightarrow> vault \<Rightarrow> bytes \<Rightarrow> string \<Rightarrow> string \<Rightarrow> security_settings \<Rightarrow> (string \<times> vault) option" where
  "create_secure_file L now now_iso new_id is_media salt_bytes nonce_bytes s
       content name password settings =
     (let settings1 =
            (if is_media \<and> set_disable_export settings = None
             then settings\<lparr>set_disable_export := Some True\<rparr> else settings);
          encrypted_content = encrypt_file_content L salt_bytes nonce_bytes now_iso content password;
          m = \<lparr> file_id = new_id,
                filename = name,
                creation_time = now_iso,
                last_accessed = now,
                access_count = 0,
                file_type = (if is_media then ''media'' else ''document''),
                security = \<lparr> expiration_time = set_expiration_time settings1,
                             max_access_count = set_max_access_count settings1,
                             deadman_switch = set_deadman_switch settings1,
                             disable_export =
                               (case set_disable_export settings1 of None \<Rightarrow> False | Some b \<Rightarrow> b) \<rparr>,
                encryption = encrypted_content,
                content_hash = None,
                failed_password_attempts = None \<rparr>
      in case write_metadata s new_id m of
           None \<Rightarrow> None
         | Some s1 \<Rightarrow> Some (new_id, s1))"

subsection \<open>Portable files\<close>

text \<open>
  The dictionary read from a portable (\<^verbatim>\<open>.bar\<close>) file. Every key may be missing
  (\<open>None\<close>); a key that is present has the type the exporter writes.
\<close>

record portable_data =
  bar_portable_file :: "bool option"
  version :: "string option"
  p_filename :: "string option"
  p_creation_time :: "string option"
  p_file_type :: "string option"
  p_security :: "security_policy option"
  p_encryption :: "envelope option"
  p_content_hash :: "string option"
  p_failed_password_attempts :: "int option"
  p_access_count :: "int option"

text \<open>
  \<^verbatim>\<open>export_portable_file\<close>, up to the dictionary that is written to \<^verbatim>\<open>export_path\<close>.
  \<open>Inl\<close> carries the exception.
\<close>

definition export_portable_file ::
  "'a crypto_lib_scheme \<Rightarrow> vault \<Rightarrow> string \<Rightarrow> string \<Rightarrow> error + portable_data" where
  "export_portable_file L s fid password =
     (case metadata_files s fid of
        None \<Rightarrow> Inl FileNotFound
      | Some f \<Rightarrow>
          if disable_export (security (meta f)) then Inl ViewOnly
          else case decrypt_file_content L (encryption (meta f)) password of
                 None \<Rightarrow> Inl ExportIncorrectPassword
               | Some file_content \<Rightarrow>
                   Inr \<lparr> bar_portable_file = Some True,
                         version = Some ''1.0'',
                         p_filename = Some (filename (meta f)),
                         p_creation_time = Some (creation_time (meta f)),
                         p_file_type = Some (file_type (meta f)),
                         p_security = Some (security (meta f)),
                         p_encryption = Some (encryption (meta f)),
                         p_content_hash = Some (hash_content L file_content),
                         p_failed_password_attempts =
                           Some (case failed_password_attempts (meta f) of None \<Rightarrow> 0 | Some n \<Rightarrow> n),
                         p_access_count = Some (access_count (meta f)) \<rparr>)"

text \<open>
  The decryption step of \<^verbatim>\<open>import_portable_file\<close>. With a \<^verbatim>\<open>"hardware_id_hash"\<close> key in
  the encryption dictionary, a copy without that key and with
  \<^verbatim>\<open>"hardware_bound": False\<close> is tried first, the original second. The result is the
  content and the encryption dictionary that will be stored.
\<close>

definition strip_binding :: "envelope \<Rightarrow> envelope" where
  "strip_binding e = e\<lparr>hardware_id_hash := None, hardware_bound := Some False\<rparr>"

definition import_decrypt ::
  "'a crypto_lib_scheme \<Rightarrow> envelope \<Rightarrow> string \<Rightarrow> import_failure + bytes \<times> envelope" where
  "import_decrypt L encryption_data password =
     (if hardware_id_hash encryption_data \<noteq> None
      then
        (let encryption_data_copy = strip_binding encryption_data
         in case decrypt_file_content L encryption_data_copy password of
              Some file_content \<Rightarrow> Inr (file_content, encryption_data_copy)
            | None \<Rightarrow>
                (case decrypt_file_content L encryption_data password of
                   Some file_content \<Rightarrow> Inr (file_content, encryption_data)
                 | None \<Rightarrow> Inl IncorrectPasswordOrBinding))
      else
        (case decrypt_file_content L encryption_data password of
           Some file_content \<Rightarrow> Inr (file_content, encryption_data)
         | None \<Rightarrow> Inl ImportIncorrectPassword))"

text \<open>
  \<^verbatim>\<open>import_portable_file\<close>, from the parsed dictionary on. \<open>new_id\<close> is the value of
  \<^verbatim>\<open>_generate_file_id()\<close>. A missing \<^verbatim>\<open>"encryption"\<close> key reads as the empty dictionary,
  in which \<^verbatim>\<open>decrypt_file_content\<close> raises \<^verbatim>\<open>KeyError('ciphertext')\<close>; the keys
  \<^verbatim>\<open>"filename"\<close>, \<^verbatim>\<open>"creation_time"\<close> and \<^verbatim>\<open>"security"\<close> are read with \<^verbatim>\<open>[...]\<close> after
  the decryption, in this order. Every exception leaves as \<open>ImportFailed\<close>.
\<close>

definition import_portable_file ::
  "'a crypto_lib_scheme \<Rightarrow> timestamp \<Rightarrow> string \<Rightarrow> vault \<Rightarrow> portable_data \<Rightarrow> string
     \<Rightarrow> (error + string) \<times> vault" where
  "import_portable_file L now new_id s pd password =
     (if \<not> truthy_bool (bar_portable_file pd) then (Inl (ImportFailed NotValidBarFile), s)
      else if truthy_str (p_content_hash pd) \<and>
              (case p_content_hash pd of None \<Rightarrow> False | Some h \<Rightarrow> is_blacklisted s h)
      then (Inl (ImportFailed Blacklisted), s)
      else case p_encryption pd of
             None \<Rightarrow> (Inl (ImportFailed (KeyError ''ciphertext'')), s)
           | Some encryption_data \<Rightarrow>
               (case import_decrypt L encryption_data password of
                  Inl cause \<Rightarrow> (Inl (ImportFailed cause), s)
                | Inr (file_content, stored_encryption) \<Rightarrow>
                    (case p_filename pd of
                       None \<Rightarrow> (Inl (ImportFailed (KeyError ''filename'')), s)
                     | Some name \<Rightarrow>
                    (case p_creation_time pd of
                       None \<Rightarrow> (Inl (ImportFailed (KeyError ''creation_time'')), s)
                     | Some created \<Rightarrow>
                    (case p_security pd of
                       None \<Rightarrow> (Inl (ImportFailed (KeyError ''security'')), s)
                     | Some policy \<Rightarrow>
                         (let m = \<lparr> file_id = new_id,
                                    filename = name,
                                    creation_time = created,
                                    last_accessed = now,
                                    access_count =
                                      (case p_access_count pd of None \<Rightarrow> 0 | Some n \<Rightarrow> n),
                                    file_type =
                                      (case p_file_type pd of None \<Rightarrow> ''document'' | Some t \<Rightarrow> t),
                                    security = policy,
                                    encryption = stored_encryption,
                                    content_hash =
                                      (if truthy_str (p_content_hash pd) then p_content_hash pd
                                       else Some (hash_content L file_content)),
                                    failed_password_attempts =
                                      Some (case p_failed_password_attempts pd of
                                              None \<Rightarrow> 0 | Some n \<Rightarrow> n) \<rparr>
                          in case write_metadata s new_id m of
                               None \<Rightarrow> (Inl (ImportFailed ImportPermissionDenied), s)
                             | Some s1 \<Rightarrow> (Inr new_id, s1)))))))"

subsection \<open>Runs of several calls\<close>

text \<open>
  Successive \<^verbatim>\<open>access_file\<close> calls on one entry, each with its time and password; the
  results are collected in order and the store is threaded through.
\<close>

fun access_all ::
  "'a crypto_lib_scheme \<Rightarrow> vault \<Rightarrow> string \<Rightarrow> (timestamp \<times> string) list
     \<Rightarrow> (error + bytes \<times> metadata) list \<times> vault" where
  "access_all L s fid [] = ([], s)"
| "access_all L s fid ((now, password) # calls) =
     (case access_file L now s fid password of
        (result, s1) \<Rightarrow>
          (case access_all L s1 fid calls of
             (results, s2) \<Rightarrow> (result # results, s2)))"

text \<open>
  The failed-attempt counter as \<^verbatim>\<open>access_file\<close> reads it (a missing key counts as 0),
  the hash under which \<^verbatim>\<open>_add_to_blacklist\<close> files an entry (its content hash, or the
  digest of its encryption dictionary when it has none), and the record it writes.
\<close>

definition attempts_of :: "metadata \<Rightarrow> int" where
  "attempts_of m = (case failed_password_attempts m of None \<Rightarrow> 0 | Some n \<Rightarrow> n)"

definition blacklist_key :: "'a crypto_lib_scheme \<Rightarrow> metadata \<Rightarrow> string" where
  "blacklist_key L m =
     (case content_hash m of
        None \<Rightarrow> envelope_hexdigest L (encryption m)
      | Some h \<Rightarrow> if h = [] then envelope_hexdigest L (encryption m) else h)"

definition blacklist_entry_of :: "'a crypto_lib_scheme \<Rightarrow> timestamp \<Rightarrow> metadata \<Rightarrow> blacklist_entry" where
  "blacklist_entry_of L now m =
     \<lparr> bl_content_hash = blacklist_key L m,
       bl_filename = filename m,
       bl_file_id = file_id m,
       blacklisted_at = now,
       bl_reason = ''security_violation'',
       original_creation_time = creation_time m \<rparr>"

text \<open>
  The blacklist directory after \<^verbatim>\<open>_add_to_blacklist\<close> has run for an entry that has such
  a hash: the record is there when its file could be opened for writing, and the
  directory is as before when it could not.
\<close>

definition blacklist_after ::
  "'a crypto_lib_scheme \<Rightarrow> timestamp \<Rightarrow> vault \<Rightarrow> metadata \<Rightarrow> (string \<rightharpoonup> blacklist_entry)" where
  "blacklist_after L now s m =
     (if blacklist_openable s (blacklist_path (blacklist_key L m))
      then (blacklist_files s)(blacklist_path (blacklist_key L m) \<mapsto> blacklist_entry_of L now m)
      else blacklist_files s)"

section \<open>FileScanner (BAR/src/file_manager/file_scanner.py)\<close>

definition BAR_FILE_MIN_SIZE :: nat where
  "BAR_FILE_MIN_SIZE = 50"

text \<open>
  \<^verbatim>\<open>re.match(r'^\d+\.\d+$', version)\<close>: one or more digits, a dot, one or more digits, and
  then the end of the text or a single final newline (which \<^verbatim>\<open>$\<close> accepts). Characters
  are octets here, so the digits are the ASCII ones.
\<close>

definition is_digit :: "char \<Rightarrow> bool" where
  "is_digit c \<longleftrightarrow> (let n = (of_char c :: nat) in 48 \<le> n \<and> n \<le> 57)"

definition version_pattern_match :: "string \<Rightarrow> bool" where
  "version_pattern_match v =
     (let major = takeWhile is_digit v; rest = dropWhile is_digit v
      in major \<noteq> [] \<and>
         (case rest of
            [] \<Rightarrow> False
          | c # rest1 \<Rightarrow>
              c = CHR ''.'' \<and>
              (let minor = takeWhile is_digit rest1; rest2 = dropWhile is_digit rest1
               in minor \<noteq> [] \<and> (rest2 = [] \<or> rest2 = [CHR 0x0A]))))"

text \<open>
  The dictionary \<^verbatim>\<open>_validate_bar_file\<close> returns for a valid file. \<open>security_info\<close> holds
  the three flags (has expiration, has access limit, has dead-man switch) when the file
  has a \<^verbatim>\<open>"security"\<close> key; \<open>expiration_status\<close> is set when that policy has an
  expiration time.
\<close>

record scanned_file =
  sc_path :: string
  sc_filename :: string
  sc_creation_time :: "string option"
  sc_version :: string
  has_security :: bool
  sc_size :: nat
  last_modified :: timestamp
  sc_content_hash :: "string option"
  security_info :: "(bool \<times> bool \<times> bool) option"
  expiration_status :: "string option"
  integrity_score :: int

text \<open>
  \<^verbatim>\<open>_validate_bar_file\<close> for a file that can be read: \<open>file_size\<close> and \<open>mtime\<close> come from
  \<^verbatim>\<open>stat\<close>, \<open>parsed\<close> is the result of \<^verbatim>\<open>json.load\<close> (\<open>None\<close> for a
  \<^verbatim>\<open>JSONDecodeError\<close>), \<open>invalid\<close> is the counter \<^verbatim>\<open>scan_progress["invalid_bar_files"]\<close>.
  The result is the returned dictionary (\<open>None\<close> for \<^verbatim>\<open>None\<close>) and the counter. The
  policy of the record holds a parsed expiration time, so the status \<^verbatim>\<open>"Unknown"\<close> that
  the source gives to an expiration text it cannot parse does not arise here; the
  integrity score does not depend on it.
\<close>

definition validate_bar_file ::
  "timestamp \<Rightarrow> string \<Rightarrow> nat \<Rightarrow> timestamp \<Rightarrow> portable_data option \<Rightarrow> nat
     \<Rightarrow> scanned_file option \<times> nat" where
  "validate_bar_file now path file_size mtime parsed invalid =
     (if file_size < BAR_FILE_MIN_SIZE then (None, invalid)
      else case parsed of
             None \<Rightarrow> (None, invalid + 1)
           | Some data \<Rightarrow>
               if \<not> truthy_bool (bar_portable_file data) then (None, invalid + 1)
               else
                 (let ver = (case version data of None \<Rightarrow> ''unknown'' | Some v \<Rightarrow> v)
                  in if ver \<noteq> ''unknown'' \<and> \<not> version_pattern_match ver then (None, invalid + 1)
                     else
                       (case p_filename data of
                          None \<Rightarrow> (None, invalid + 1)
                        | Some name \<Rightarrow>
                            if p_encryption data = None then (None, invalid + 1)
                            else
                              (let optional_fields =
                                     [p_creation_time data \<noteq> None,
                                      p_content_hash data \<noteq> None,
                                      p_security data \<noteq> None];
                                   score1 = fold (\<lambda>present score. if \<not> present then score - 10 else score)
                                              optional_fields (100 :: int);
                                   score2 = (if ver = ''unknown'' then score1 - 10 else score1)
                               in (Some \<lparr> sc_path = path,
                                          sc_filename = name,
                                          sc_creation_time = p_creation_time data,
                                          sc_version = ver,
                                          has_security = (p_security data \<noteq> None),
                                          sc_size = file_size,
                                          last_modified = mtime,
                                          sc_content_hash = p_content_hash data,
                                          security_info =
                                            (case p_security data of
                                               None \<Rightarrow> None
                                             | Some sec \<Rightarrow>
                                                 Some (expiration_time sec \<noteq> None,
                                                       max_access_count sec \<noteq> None,
                                                       deadman_switch sec \<noteq> None)),
                                          expiration_status =
                                            (case p_security data of
                                               None \<Rightarrow> None
                                             | Some sec \<Rightarrow>
                                                 (case expiration_time sec of
                                                    None \<Rightarrow> None
                                                  | Some t \<Rightarrow>
                                                      Some (if now > t then ''Expired'' else ''Valid''))),
                                          integrity_score = max 0 score2 \<rparr>,
                                   invalid)))))"

section \<open>SecureDelete (src/security/secure_delete.py)\<close>

text \<open>
  A path names a regular file, with its content and whether the process may open it for
  writing, or a directory. Once the file is open, a step of the deletion can still fail
  with an \<^verbatim>\<open>OSError\<close>: the writing of a pass, its \<^verbatim>\<open>flush\<close> and \<^verbatim>\<open>fsync\<close>, the
  truncation, the removal. Which steps do is given by a predicate on the steps.
\<close>

datatype fs_node = RegularFile bytes bool | Directory

type_synonym filesystem = "string \<rightharpoonup> fs_node"

datatype io_step = WritePass nat | SyncPass nat | TruncateStep | RemoveStep

definition DEFAULT_PASSES :: int where
  "DEFAULT_PASSES = 3"

text \<open>
  The pattern of a pass: 4096 zero octets, 4096 octets \<^verbatim>\<open>0xFF\<close>, then the random block
  \<open>urandom pass_num\<close> drawn by \<^verbatim>\<open>os.urandom(4096)\<close> in that pass.
\<close>

definition pass_pattern :: "(nat \<Rightarrow> bytes) \<Rightarrow> nat \<Rightarrow> bytes" where
  "pass_pattern urandom pass_num =
     (if pass_num = 0 then replicate 4096 0x00
      else if pass_num = 1 then replicate 4096 0xFF
      else urandom pass_num)"

text \<open>
  The inner \<^verbatim>\<open>while bytes_written < file_size\<close> loop; \<open>written\<close> collects what
  \<^verbatim>\<open>f.write\<close> has put out since \<^verbatim>\<open>f.seek(0)\<close>.
\<close>

function write_chunks :: "bytes \<Rightarrow> nat \<Rightarrow> nat \<Rightarrow> bytes \<Rightarrow> bytes" where
  "write_chunks pattern file_size bytes_written written =
     (if bytes_written < file_size
      then (let chunk_size = min 4096 (file_size - bytes_written)
            in write_chunks pattern file_size (bytes_written + chunk_size)
                 (written @ take chunk_size pattern))
      else written)"
  by pat_completeness auto
termination
  by (relation "measure (\<lambda>(pattern, file_size, bytes_written, written). file_size - bytes_written)")
     auto

text \<open>The defining equation is recursive without a guard; it is applied by hand.\<close>

declare write_chunks.simps [simp del]

text \<open>Writing from offset 0 replaces the beginning of the content and keeps the rest.\<close>

definition overwrite_from_start :: "bytes \<Rightarrow> bytes \<Rightarrow> bytes" where
  "overwrite_from_start written content = written @ drop (length written) content"

text \<open>
  The passes in order. A pass whose writing fails raises, and the content is what the
  passes before it left; a pass whose \<^verbatim>\<open>flush\<close> or \<^verbatim>\<open>fsync\<close> fails raises after its
  bytes were written, and the content is what that pass wrote. The flag says whether
  all passes went through.
\<close>

fun overwrite_passes ::
  "(io_step \<Rightarrow> bool) \<Rightarrow> (nat \<Rightarrow> bytes) \<Rightarrow> nat \<Rightarrow> nat list \<Rightarrow> bytes \<Rightarrow> bool \<times> bytes" where
  "overwrite_passes fails urandom file_size [] content = (True, content)"
| "overwrite_passes fails urandom file_size (pass_num # rest) content =
     (if fails (WritePass pass_num) then (False, content)
      else
        (let content1 = overwrite_from_start
                          (write_chunks (pass_pattern urandom pass_num) file_size 0 []) content
         in if fails (SyncPass pass_num) then (False, content1)
            else overwrite_passes fails urandom file_size rest content1))"

text \<open>
  \<^verbatim>\<open>secure_delete_file(file_path, passes)\<close>: the returned flag and the file system
  afterwards. Every exception of the \<^verbatim>\<open>try\<close> block ends in the handler, which logs it and
  returns \<^verbatim>\<open>False\<close>; the function itself never raises.
\<close>

definition secure_delete_file ::
  "(io_step \<Rightarrow> bool) \<Rightarrow> (nat \<Rightarrow> bytes) \<Rightarrow> filesystem \<Rightarrow> string \<Rightarrow> int \<Rightarrow> bool \<times> filesystem" where
  "secure_delete_file fails urandom fs file_path passes =
     (case fs file_path of
        None \<Rightarrow> (False, fs)
      | Some Directory \<Rightarrow> (False, fs)
      | Some (RegularFile content may_write) \<Rightarrow>
          if \<not> may_write then (False, fs)
          else
            (case overwrite_passes fails urandom (length content) [0..<nat passes] content of
               (False, content1) \<Rightarrow> (False, fs(file_path \<mapsto> RegularFile content1 may_write))
             | (True, content1) \<Rightarrow>
                 if fails TruncateStep
                 then (False, fs(file_path \<mapsto> RegularFile content1 may_write))
                 else if fails RemoveStep
                 then (False, fs(file_path \<mapsto> RegularFile [] may_write))
                 else (True, fs(file_path := None))))"

section \<open>Example data\<close>

text \<open>
  Concrete values on which the theorems below are run. \<open>example_envelope\<close> is what the
  small library instance produces for the one-octet content \<open>[99]\<close>, the password
  \<open>pw\<close> and the salt \<open>s\<close>; its content hash under that instance is \<open>Hc\<close>.
\<close>

definition example_envelope :: envelope where
  "example_envelope =
     \<lparr> ciphertext = ''cpws'', nonce = ''n'', salt = ''s'', encryption_time = ''t0'',
       encryption_method = ''AES-256-GCM'', kdf_method = ''PBKDF2-HMAC-SHA256'',
       kdf_iterations = 100000, hardware_id_hash = None, hardware_bound = None \<rparr>"

definition example_policy :: security_policy where
  "example_policy =
     \<lparr> expiration_time = None, max_access_count = None, deadman_switch = None,
       disable_export = False \<rparr>"

definition example_metadata :: metadata where
  "example_metadata =
     \<lparr> file_id = ''id1'', filename = ''a.txt'', creation_time = ''t0'', last_accessed = 0,
       access_count = 0, file_type = ''document'', security = example_policy,
       encryption = example_envelope, content_hash = Some ''Hc'',
       failed_password_attempts = None \<rparr>"

definition example_portable :: portable_data where
  "example_portable =
     \<lparr> bar_portable_file = Some True, version = Some ''1.0'', p_filename = Some ''a.txt'',
       p_creation_time = Some ''t0'', p_file_type = Some ''document'',
       p_security = Some example_policy, p_encryption = Some example_envelope,
       p_content_hash = Some ''Hc'', p_failed_password_attempts = Some 0,
       p_access_count = Some 0 \<rparr>"

definition minimal_portable :: portable_data where
  "minimal_portable =
     \<lparr> bar_portable_file = Some True, version = Some ''1.0'', p_filename = Some ''a.txt'',
       p_creation_time = None, p_file_type = None,
       p_security = None, p_encryption = Some example_envelope,
       p_content_hash = None, p_failed_password_attempts = None,
       p_access_count = None \<rparr>"

definition empty_vault :: vault where
  "empty_vault =
     \<lparr> metadata_files = Map.empty, blacklist_files = Map.empty,
       blacklist_openable = (\<lambda>name. length name \<le> 255), scheduled = [] \<rparr>"

definition bound_envelope :: envelope where
  "bound_envelope = example_envelope\<lparr>hardware_id_hash := Some ''hw-of-another-machine'',
                                     hardware_bound := Some True\<rparr>"

definition blacklisting_vault :: vault where
  "blacklisting_vault =
     empty_vault\<lparr>blacklist_files :=
       [blacklist_path ''Hc'' \<mapsto>
          \<lparr> bl_content_hash = ''Hc'', bl_filename = ''a.txt'', bl_file_id = ''id0'',
            blacklisted_at = 0, bl_reason = ''security_violation'',
            original_creation_time = ''t0'' \<rparr>]\<rparr>"

definition bound_portable :: portable_data where
  "bound_portable = example_portable\<lparr>p_encryption := Some bound_envelope\<rparr>"

definition rewrapped_portable :: portable_data where
  "rewrapped_portable = example_portable\<lparr>p_content_hash := None\<rparr>"

text \<open>
  Stores with one entry: one with a content hash, one written by \<^verbatim>\<open>create_secure_file\<close>
  (which records none), one limited to a single access.
\<close>

definition example_vault :: vault where
  "example_vault =
     empty_vault\<lparr>metadata_files := [''id1'' \<mapsto> \<lparr>meta = example_metadata, writable = True\<rparr>]\<rparr>"

definition created_vault :: vault where
  "created_vault =
     (case create_secure_file toy_lib 0 ''t0'' ''id1'' False [115] [110] empty_vault
             [99] ''a.txt'' ''pw''
             \<lparr> set_expiration_time = None, set_max_access_count = None,
               set_deadman_switch = None, set_disable_export = None \<rparr> of
        None \<Rightarrow> empty_vault
      | Some (new_id, s) \<Rightarrow> s)"

definition created_metadata :: metadata where
  "created_metadata =
     \<lparr> file_id = ''id1'', filename = ''a.txt'', creation_time = ''t0'', last_accessed = 0,
       access_count = 0, file_type = ''document'', security = example_policy,
       encryption = example_envelope, content_hash = None,
       failed_password_attempts = None \<rparr>"

definition single_use_metadata :: metadata where
  "single_use_metadata = example_metadata\<lparr>security := example_policy\<lparr>max_access_count := Some 1\<rparr>\<rparr>"

definition single_use_vault :: vault where
  "single_use_vault =
     empty_vault\<lparr>metadata_files := [''id1'' \<mapsto> \<lparr>meta = single_use_metadata, writable = True\<rparr>]\<rparr>"

text \<open>
  Two more stores with one entry: one whose expiration time has passed, and one whose
  failed-attempt counter is already 2, as \<^verbatim>\<open>import_portable_file\<close> writes it for a
  record exported after two failed attempts.
\<close>

definition expired_vault :: vault where
  "expired_vault =
     empty_vault\<lparr>metadata_files :=
       [''id1'' \<mapsto> \<lparr>meta = example_metadata\<lparr>security := example_policy\<lparr>expiration_time := Some 0\<rparr>\<rparr>,
                    writable = True\<rparr>]\<rparr>"

definition twice_failed_vault :: vault where
  "twice_failed_vault =
     empty_vault\<lparr>metadata_files :=
       [''id1'' \<mapsto> \<lparr>meta = example_metadata\<lparr>failed_password_attempts := Some 2\<rparr>,
                    writable = True\<rparr>]\<rparr>"

text \<open>
  A store whose entry carries a content hash of 300 characters, as
  \<^verbatim>\<open>import_portable_file\<close> stores it for a record with such a \<open>content_hash\<close>; the
  example stores accept blacklist file names of up to 255 characters.
\<close>

definition long_hash :: string where
  "long_hash = replicate 300 (CHR ''a'')"

definition long_hash_vault :: vault where
  "long_hash_vault =
     empty_vault\<lparr>metadata_files :=
       [''id1'' \<mapsto> \<lparr>meta = example_metadata\<lparr>content_hash := Some long_hash\<rparr>,
                    writable = True\<rparr>]\<rparr>"

text \<open>
  A store whose only metadata file cannot be opened for writing, the same situation on
  the level of file contents, a file that can be opened, and three behaviours of the
  environment: no step fails, the second overwrite pass fails, and the random block.
\<close>

definition locked_vault :: vault where
  "locked_vault =
     empty_vault\<lparr>metadata_files := [''id1'' \<mapsto> \<lparr>meta = example_metadata, writable = False\<rparr>]\<rparr>"

definition read_only_fs :: filesystem where
  "read_only_fs = [''vault/metadata/id1.json'' \<mapsto> RegularFile [1, 2, 3] False]"

definition writable_fs :: filesystem where
  "writable_fs = [''vault/metadata/id1.json'' \<mapsto> RegularFile [1, 2, 3] True]"

definition second_pass_fails :: "io_step \<Rightarrow> bool" where
  "second_pass_fails step = (step = WritePass 1)"

definition no_fault :: "io_step \<Rightarrow> bool" where
  "no_fault step = False"

definition example_urandom :: "nat \<Rightarrow> bytes" where
  "example_urandom pass_num = replicate 4096 0xA5"

section \<open>Properties of the cryptographic layer\<close>

lemma toy_aead_correct: "aead_correct toy_lib"
  by (simp add: aead_correct_def toy_lib_def toy_encrypt_def toy_decrypt_def)

lemma toy_b64_roundtrip: "toy_b64decode (toy_b64encode x) = Some x"
proof -
  have one: "(of_nat (unat b mod 256) :: byte) = b" for b :: byte
  proof -
    have "unat b < 256" using unsigned_less [of b] by simp
    then show ?thesis by simp
  qed
  have "map (\<lambda>c. (of_nat (of_char c) :: byte)) (map (\<lambda>b. char_of (unat b)) x) = x"
    by (induction x) (simp_all add: one)
  then show ?thesis by (simp add: toy_b64encode_def toy_b64decode_def)
qed

lemma toy_b64_correct: "b64_correct toy_lib"
  by (simp add: b64_correct_def toy_lib_def toy_b64_roundtrip)

lemma decrypt_encrypt_data:
  assumes "aead_correct L"
  shows "decrypt_data L (encrypt_data L n d k) k = Some d"
  using assms by (simp add: aead_correct_def decrypt_data_def encrypt_data_def)

text \<open>
  C1. Sealing any content with any password and unsealing the envelope with the same
  password gives the content back, whatever salt, nonce and time stamp were drawn while
  sealing. The content is an arbitrary list of octets, so the empty one and those longer
  than 1 MiB are included. The library is assumed to meet its contract.
\<close>

theorem seal_unseal_roundtrip:
  assumes "aead_correct L" and "b64_correct L"
  shows "decrypt_file_content L
           (encrypt_file_content L salt_bytes nonce_bytes now_iso content password) password
         = Some content"
proof -
  have b: "\<And>x. b64decode L (b64encode L x) = Some x"
    using assms(2) by (simp add: b64_correct_def)
  show ?thesis
    by (simp add: decrypt_file_content_def encrypt_file_content_def Let_def b
        decrypt_encrypt_data [OF assms(1)])
qed

theorem seal_unseal_roundtrip_witness:
  "aead_correct toy_lib \<and> b64_correct toy_lib \<and>
   decrypt_file_content toy_lib
     (encrypt_file_content toy_lib [7, 7] [9] ''t0'' [] ''pw'') ''pw'' = Some [] \<and>
   decrypt_file_content toy_lib
     (encrypt_file_content toy_lib [7, 7] [9] ''t0'' [1, 2, 255] ''pw'') ''pw'' = Some [1, 2, 255]"
  using seal_unseal_roundtrip [OF toy_aead_correct toy_b64_correct, of "[7, 7]" "[9]" "''t0''" "[]" "''pw''"]
    seal_unseal_roundtrip [OF toy_aead_correct toy_b64_correct, of "[7, 7]" "[9]" "''t0''" "[1, 2, 255]" "''pw''"]
    toy_aead_correct toy_b64_correct
  by simp

section \<open>Helper facts\<close>

lemma decrypt_strip_binding:
  "decrypt_file_content L (strip_binding e) password = decrypt_file_content L e password"
  by (simp add: decrypt_file_content_def strip_binding_def cong: option.case_cong)

lemma add_to_blacklist_metadata_files:
  "metadata_files (snd (add_to_blacklist L now s m)) = metadata_files s"
  by (simp add: add_to_blacklist_def Let_def split: option.split)

lemma add_to_blacklist_scheduled:
  "scheduled (snd (add_to_blacklist L now s m)) = scheduled s"
  by (simp add: add_to_blacklist_def Let_def split: option.split)

lemma add_to_blacklist_content_hash:
  assumes "content_hash m = Some h" and "h \<noteq> []"
    and "blacklist_openable s (blacklist_path h)"
  shows "is_blacklisted (snd (add_to_blacklist L now s m)) h"
  using assms by (simp add: add_to_blacklist_def Let_def truthy_str_def is_blacklisted_def)

lemma secure_delete_metadata_file_blacklist:
  "blacklist_files (snd (secure_delete_metadata_file s fid)) = blacklist_files s"
  by (simp add: secure_delete_metadata_file_def split: option.split)

lemma secure_delete_metadata_file_cases:
  "metadata_files (snd (secure_delete_metadata_file s fid)) =
     (case metadata_files s fid of
        None \<Rightarrow> metadata_files s
      | Some f \<Rightarrow> if writable f then (metadata_files s)(fid := None) else metadata_files s)"
  by (simp add: secure_delete_metadata_file_def split: option.split)

lemma manager_secure_delete_file_removes:
  assumes "fid \<noteq> []" and "metadata_files s fid = Some f" and "writable f"
  shows "metadata_files (snd (manager_secure_delete_file L now s fid b)) = (metadata_files s)(fid := None)"
  using assms
  by (simp add: manager_secure_delete_file_def Let_def secure_delete_metadata_file_cases
      add_to_blacklist_metadata_files)

lemma manager_secure_delete_file_blacklists:
  assumes "fid \<noteq> []" and "metadata_files s fid = Some f"
    and "content_hash (meta f) = Some h" and "h \<noteq> []"
    and "blacklist_openable s (blacklist_path h)"
  shows "is_blacklisted (snd (manager_secure_delete_file L now s fid True)) h"
  using assms
    add_to_blacklist_content_hash [where m = "meta f" and h = h and L = L and now = now and s = s]
  by (simp add: manager_secure_delete_file_def Let_def is_blacklisted_def
      secure_delete_metadata_file_blacklist)

lemma manager_secure_delete_file_shrinks:
  "metadata_files (snd (manager_secure_delete_file L now s j b)) = metadata_files s \<or>
   metadata_files (snd (manager_secure_delete_file L now s j b)) = (metadata_files s)(j := None)"
  by (simp add: manager_secure_delete_file_def Let_def secure_delete_metadata_file_cases
      add_to_blacklist_metadata_files split: option.split)

lemma example_decrypt_right:
  "decrypt_file_content toy_lib example_envelope ''pw'' = Some [99]"
  by (simp add: decrypt_file_content_def toy_lib_def example_envelope_def toy_b64decode_def
      decrypt_data_def derive_key_def toy_kdf_def toy_decrypt_def)

lemma example_decrypt_wrong:
  "decrypt_file_content toy_lib example_envelope ''no'' = None"
  by (simp add: decrypt_file_content_def toy_lib_def example_envelope_def toy_b64decode_def
      decrypt_data_def derive_key_def toy_kdf_def toy_decrypt_def)

section \<open>Constraint evaluation\<close>

text \<open>
  C5. The result of the constraint check is determined by the policy, the current time,
  the time of the last access and the access count: for a policy of the data model
  (limits, when set, are positive) the check fails, mandating destruction, exactly when
  the entry is expired, exhausted or its dead-man switch is triggered, and it reports
  the entry accessible when none of the three holds.
\<close>

theorem constraint_evaluation_matches_spec:
  assumes "policy_in_data_model (security m)"
  shows "check_security_constraints now m
         = (\<not> mandates_destruction now (security m) (last_accessed m) (access_count m))"
proof -
  have e: "(case expiration_time (security m) of None \<Rightarrow> False | Some t \<Rightarrow> now > t)
           = expired now (security m)"
    by (simp add: expired_def)
  have x: "(truthy_int (max_access_count (security m)) \<and>
            (case max_access_count (security m) of None \<Rightarrow> False
             | Some limit \<Rightarrow> access_count m \<ge> limit))
           = exhausted (security m) (access_count m)"
    using assms
    by (cases "max_access_count (security m)")
       (simp_all add: exhausted_def truthy_int_def policy_in_data_model_def)
  have d: "(truthy_int (deadman_switch (security m)) \<and>
            (case deadman_switch (security m) of None \<Rightarrow> False
             | Some days \<Rightarrow> inactive_days now (last_accessed m) > days))
           = deadman_triggered now (security m) (last_accessed m)"
    using assms
    by (cases "deadman_switch (security m)")
       (simp_all add: deadman_triggered_def truthy_int_def policy_in_data_model_def
          inactive_days_def split: option.splits)
  show ?thesis
    unfolding check_security_constraints_def e x d mandates_destruction_def by simp
qed

theorem constraint_evaluation_matches_spec_witness:
  "policy_in_data_model (security (example_metadata\<lparr>security := example_policy\<lparr>max_access_count := Some 1\<rparr>\<rparr>)) \<and>
   check_security_constraints 5 (example_metadata\<lparr>security := example_policy\<lparr>max_access_count := Some 1\<rparr>\<rparr>) \<and>
   \<not> check_security_constraints 5
       (example_metadata\<lparr>security := example_policy\<lparr>max_access_count := Some 1\<rparr>, access_count := 1\<rparr>)"
  using constraint_evaluation_matches_spec
          [of "example_metadata\<lparr>security := example_policy\<lparr>max_access_count := Some 1\<rparr>\<rparr>" 5]
        constraint_evaluation_matches_spec
          [of "example_metadata\<lparr>security := example_policy\<lparr>max_access_count := Some 1\<rparr>, access_count := 1\<rparr>" 5]
  by (simp add: policy_in_data_model_def example_metadata_def example_policy_def
      mandates_destruction_def expired_def exhausted_def deadman_triggered_def)

text \<open>
  Outside the data model the check follows Python's truth values: a limit of 0 is read as
  no limit.
\<close>

lemma zero_limit_reads_as_unset:
  assumes "expiration_time (security m) = None" and "max_access_count (security m) = Some 0"
    and "deadman_switch (security m) = None"
  shows "check_security_constraints now m"
  using assms by (simp add: check_security_constraints_def truthy_int_def)

section \<open>Scanner\<close>

lemma version_pattern_rejects_unknown: "\<not> version_pattern_match ''unknown''"
  by (simp add: version_pattern_match_def is_digit_def)

lemma version_pattern_accepts_1_0: "version_pattern_match ''1.0''"
  by (simp add: version_pattern_match_def is_digit_def)

text \<open>
  C8. A parsed record of at least the minimum size, with the signature marker, the
  required fields \<open>filename\<close> and \<open>encryption\<close>, and a version that, when present, has
  the shape digits-dot-digits: the scanner accepts it and gives it the integrity score
  100 minus 10 for each of \<open>creation_time\<close>, \<open>content_hash\<close> and \<open>security\<close> that is
  absent, minus 10 when the version is absent. On the two records of the claim, the
  minimal one scores 70 and the fully populated one 100.
\<close>

theorem integrity_score_of_valid_record:
  assumes size: "BAR_FILE_MIN_SIZE \<le> file_size"
    and marker: "truthy_bool (bar_portable_file data)"
    and required: "p_filename data \<noteq> None" "p_encryption data \<noteq> None"
    and shape: "\<forall>v. version data = Some v \<longrightarrow> version_pattern_match v"
  shows "map_option integrity_score
           (fst (validate_bar_file now path file_size mtime (Some data) invalid))
         = Some (100 - (if p_creation_time data = None then 10 else 0)
                     - (if p_content_hash data = None then 10 else 0)
                     - (if p_security data = None then 10 else 0)
                     - (if version data = None then 10 else 0))"
proof -
  have big: "\<not> file_size < BAR_FILE_MIN_SIZE"
    using size by simp
  obtain name where name: "p_filename data = Some name"
    using required(1) by auto
  obtain e where enc: "p_encryption data = Some e"
    using required(2) by auto
  show ?thesis
  proof (cases "version data")
    case None
    then show ?thesis
      by (simp add: validate_bar_file_def Let_def big marker name enc)
  next
    case (Some v)
    then have m: "version_pattern_match v" using shape by simp
    then have u: "v \<noteq> ''unknown''" using version_pattern_rejects_unknown by auto
    show ?thesis
      by (simp add: validate_bar_file_def Let_def big marker name enc Some m u)
  qed
qed

theorem integrity_score_of_valid_record_witness:
  "map_option integrity_score (fst (validate_bar_file 0 ''p'' 60 0 (Some minimal_portable) 0))
     = Some 70 \<and>
   map_option integrity_score (fst (validate_bar_file 0 ''p'' 60 0 (Some example_portable) 0))
     = Some 100"
proof -
  have s: "BAR_FILE_MIN_SIZE \<le> 60" by (simp add: BAR_FILE_MIN_SIZE_def)
  have mm: "truthy_bool (bar_portable_file minimal_portable)"
    and mf: "p_filename minimal_portable \<noteq> None"
    and me: "p_encryption minimal_portable \<noteq> None"
    and mv: "\<forall>v. version minimal_portable = Some v \<longrightarrow> version_pattern_match v"
    by (simp_all add: minimal_portable_def truthy_bool_def version_pattern_accepts_1_0)
  have em: "truthy_bool (bar_portable_file example_portable)"
    and ef: "p_filename example_portable \<noteq> None"
    and ee: "p_encryption example_portable \<noteq> None"
    and ev: "\<forall>v. version example_portable = Some v \<longrightarrow> version_pattern_match v"
    by (simp_all add: example_portable_def truthy_bool_def version_pattern_accepts_1_0)
  show ?thesis
    using integrity_score_of_valid_record [OF s mm mf me mv, of 0 "''p''" 0 0]
      integrity_score_of_valid_record [OF s em ef ee ev, of 0 "''p''" 0 0]
    by (simp add: minimal_portable_def example_portable_def)
qed

section \<open>Import of portable files\<close>

lemma bound_decrypt_right:
  "decrypt_file_content toy_lib bound_envelope ''pw'' = Some [99]"
  by (simp add: decrypt_file_content_def toy_lib_def example_envelope_def toy_b64decode_def
      decrypt_data_def derive_key_def toy_kdf_def toy_decrypt_def bound_envelope_def)

lemma bound_decrypt_wrong:
  "decrypt_file_content toy_lib bound_envelope ''no'' = None"
  by (simp add: decrypt_file_content_def toy_lib_def example_envelope_def toy_b64decode_def
      decrypt_data_def derive_key_def toy_kdf_def toy_decrypt_def bound_envelope_def)

lemma blacklisting_vault_lists_Hc: "is_blacklisted blacklisting_vault ''Hc''"
  by (simp add: is_blacklisted_def blacklisting_vault_def empty_vault_def)

text \<open>
  C10. Unsealing reads the ciphertext, the nonce and the salt of the envelope and nothing
  else: two envelopes that agree on these three fields unseal to the same result under
  the same password, success with the same plaintext or failure alike. The binding
  fields \<open>hardware_id_hash\<close> and \<open>hardware_bound\<close> are among the fields not read, so the
  two attempts of a hardware-bound import compute the same.
\<close>

theorem decrypt_depends_on_three_fields:
  assumes "ciphertext e1 = ciphertext e2" and "nonce e1 = nonce e2" and "salt e1 = salt e2"
  shows "decrypt_file_content L e1 password = decrypt_file_content L e2 password"
  using assms by (simp add: decrypt_file_content_def cong: option.case_cong)

theorem decrypt_depends_on_three_fields_witness:
  "ciphertext (strip_binding bound_envelope) = ciphertext bound_envelope \<and>
   nonce (strip_binding bound_envelope) = nonce bound_envelope \<and>
   salt (strip_binding bound_envelope) = salt bound_envelope \<and>
   hardware_id_hash (strip_binding bound_envelope) \<noteq> hardware_id_hash bound_envelope \<and>
   decrypt_file_content toy_lib (strip_binding bound_envelope) ''pw''
     = decrypt_file_content toy_lib bound_envelope ''pw'' \<and>
   decrypt_file_content toy_lib bound_envelope ''pw'' = Some [99] \<and>
   decrypt_file_content toy_lib (strip_binding bound_envelope) ''no''
     = decrypt_file_content toy_lib bound_envelope ''no'' \<and>
   decrypt_file_content toy_lib bound_envelope ''no'' = None"
proof -
  have c: "ciphertext (strip_binding bound_envelope) = ciphertext bound_envelope"
    and n: "nonce (strip_binding bound_envelope) = nonce bound_envelope"
    and s: "salt (strip_binding bound_envelope) = salt bound_envelope"
    by (simp_all add: strip_binding_def)
  have h: "hardware_id_hash (strip_binding bound_envelope) \<noteq> hardware_id_hash bound_envelope"
    by (simp add: strip_binding_def bound_envelope_def)
  show ?thesis
    using decrypt_depends_on_three_fields [OF c n s, of toy_lib "''pw''"]
      decrypt_depends_on_three_fields [OF c n s, of toy_lib "''no''"]
      c n s h bound_decrypt_right bound_decrypt_wrong
    by simp
qed

text \<open>
  C4. A portable record that carries the signature marker and a content hash found in
  the blacklist is refused with the blacklist error whatever the password is, the correct
  one included, and the store is left as it was: no entry is written.
\<close>

theorem blacklisted_import_rejected:
  assumes "truthy_bool (bar_portable_file pd)"
    and "p_content_hash pd = Some h" and "h \<noteq> []"
    and "is_blacklisted s h"
  shows "import_portable_file L now new_id s pd password = (Inl (ImportFailed Blacklisted), s)"
  using assms by (simp add: import_portable_file_def truthy_str_def)

theorem blacklisted_import_rejected_witness:
  "truthy_bool (bar_portable_file example_portable) \<and>
   p_content_hash example_portable = Some ''Hc'' \<and>
   is_blacklisted blacklisting_vault ''Hc'' \<and>
   map_option (\<lambda>e. decrypt_file_content toy_lib e ''pw'') (p_encryption example_portable)
     = Some (Some [99]) \<and>
   import_portable_file toy_lib 5 ''id2'' blacklisting_vault example_portable ''pw''
     = (Inl (ImportFailed Blacklisted), blacklisting_vault)"
proof -
  have a: "truthy_bool (bar_portable_file example_portable)"
    by (simp add: example_portable_def truthy_bool_def)
  have b: "p_content_hash example_portable = Some ''Hc''"
    by (simp add: example_portable_def)
  have c: "''Hc'' \<noteq> []" by simp
  have d: "map_option (\<lambda>e. decrypt_file_content toy_lib e ''pw'') (p_encryption example_portable)
     = Some (Some [99])"
    by (simp add: example_portable_def example_decrypt_right)
  show ?thesis
    using blacklisted_import_rejected [OF a b c blacklisting_vault_lists_Hc, of toy_lib 5 "''id2''" "''pw''"]
      a b d blacklisting_vault_lists_Hc
    by simp
qed

lemma import_decrypt_success:
  assumes "decrypt_file_content L e password = Some content"
  shows "import_decrypt L e password
         = Inr (content, if hardware_id_hash e \<noteq> None then strip_binding e else e)"
  using assms by (simp add: import_decrypt_def Let_def decrypt_strip_binding)

lemma import_decrypt_failure:
  assumes "decrypt_file_content L e password = None"
  shows "import_decrypt L e password
         = Inl (if hardware_id_hash e \<noteq> None then IncorrectPasswordOrBinding
                else ImportIncorrectPassword)"
  using assms by (simp add: import_decrypt_def Let_def decrypt_strip_binding)

lemma import_portable_file_success:
  assumes "truthy_bool (bar_portable_file pd)"
    and "\<not> (truthy_str (p_content_hash pd) \<and>
            (case p_content_hash pd of None \<Rightarrow> False | Some h \<Rightarrow> is_blacklisted s h))"
    and "p_encryption pd = Some e" and "p_filename pd = Some name"
    and "p_creation_time pd = Some created" and "p_security pd = Some policy"
    and "decrypt_file_content L e password = Some content"
    and "metadata_files s new_id = None"
  shows "import_portable_file L now new_id s pd password =
     (Inr new_id,
      s\<lparr>metadata_files := (metadata_files s)(new_id \<mapsto>
          \<lparr> meta = \<lparr> file_id = new_id, filename = name, creation_time = created,
                     last_accessed = now,
                     access_count = (case p_access_count pd of None \<Rightarrow> 0 | Some n \<Rightarrow> n),
                     file_type = (case p_file_type pd of None \<Rightarrow> ''document'' | Some t \<Rightarrow> t),
                     security = policy,
                     encryption = (if hardware_id_hash e \<noteq> None then strip_binding e else e),
                     content_hash = (if truthy_str (p_content_hash pd) then p_content_hash pd
                                     else Some (hash_content L content)),
                     failed_password_attempts =
                       Some (case p_failed_password_attempts pd of None \<Rightarrow> 0 | Some n \<Rightarrow> n) \<rparr>,
            writable = True \<rparr>)\<rparr>)"
  using assms(1,2)
  by (simp add: import_portable_file_def assms(3-6) import_decrypt_success [OF assms(7)]
      write_metadata_def assms(8) Let_def)

text \<open>
  C9. The blacklist is consulted only for a content hash that is present and not empty.
  A record with the signature marker and without a content hash (or with an empty one)
  is imported under the correct password whatever the blacklist \<open>B\<close> holds; the entry
  stored gets the hash of the decrypted content. The witness imports such a record
  while the hash of its payload is on the blacklist.
\<close>

theorem import_without_content_hash_skips_blacklist:
  assumes "truthy_bool (bar_portable_file pd)"
    and "p_content_hash pd = None \<or> p_content_hash pd = Some []"
    and "p_encryption pd = Some e" and "p_filename pd = Some name"
    and "p_creation_time pd = Some created" and "p_security pd = Some policy"
    and "decrypt_file_content L e password = Some content"
    and "metadata_files s new_id = None"
  shows "fst (import_portable_file L now new_id (s\<lparr>blacklist_files := B\<rparr>) pd password) = Inr new_id \<and>
         map_option (\<lambda>f. content_hash (meta f))
           (metadata_files (snd (import_portable_file L now new_id (s\<lparr>blacklist_files := B\<rparr>) pd password)) new_id)
         = Some (Some (hash_content L content))"
proof -
  have nh: "\<not> truthy_str (p_content_hash pd)"
    using assms(2) by (auto simp add: truthy_str_def)
  have nb: "\<not> (truthy_str (p_content_hash pd) \<and>
            (case p_content_hash pd of None \<Rightarrow> False
             | Some h \<Rightarrow> is_blacklisted (s\<lparr>blacklist_files := B\<rparr>) h))"
    using nh by simp
  have fresh: "metadata_files (s\<lparr>blacklist_files := B\<rparr>) new_id = None"
    using assms(8) by simp
  show ?thesis
    by (simp add: import_portable_file_success [OF assms(1) nb assms(3-7) fresh] nh)
qed

theorem import_without_content_hash_skips_blacklist_witness:
  "truthy_bool (bar_portable_file rewrapped_portable) \<and>
   p_content_hash rewrapped_portable = None \<and>
   is_blacklisted blacklisting_vault (hash_content toy_lib [99]) \<and>
   fst (import_portable_file toy_lib 5 ''id2'' blacklisting_vault rewrapped_portable ''pw'')
     = Inr ''id2'' \<and>
   map_option (\<lambda>f. content_hash (meta f))
     (metadata_files (snd (import_portable_file toy_lib 5 ''id2'' blacklisting_vault
        rewrapped_portable ''pw'')) ''id2'')
     = Some (Some (hash_content toy_lib [99]))"
proof -
  have a: "truthy_bool (bar_portable_file rewrapped_portable)"
    by (simp add: rewrapped_portable_def example_portable_def truthy_bool_def)
  have b: "p_content_hash rewrapped_portable = None \<or> p_content_hash rewrapped_portable = Some []"
    by (simp add: rewrapped_portable_def)
  have c: "p_encryption rewrapped_portable = Some example_envelope"
    and d: "p_filename rewrapped_portable = Some ''a.txt''"
    and e: "p_creation_time rewrapped_portable = Some ''t0''"
    and f: "p_security rewrapped_portable = Some example_policy"
    by (simp_all add: rewrapped_portable_def example_portable_def)
  have g: "metadata_files empty_vault ''id2'' = None"
    by (simp add: empty_vault_def)
  have v: "empty_vault\<lparr>blacklist_files := blacklist_files blacklisting_vault\<rparr> = blacklisting_vault"
    by (simp add: blacklisting_vault_def)
  have h: "hash_content toy_lib [99] = ''Hc''"
    by code_simp
  show ?thesis
    using import_without_content_hash_skips_blacklist
            [OF a b c d e f example_decrypt_right g, of 5 "blacklist_files blacklisting_vault"]
      a blacklisting_vault_lists_Hc
    by (simp add: v h rewrapped_portable_def)
qed

text \<open>
  C3. A portable record whose encryption dictionary carries a \<open>hardware_id_hash\<close>, with
  the signature marker, the required fields and no blacklisted content hash: with a
  password that unseals the envelope the import succeeds, returns the new id and stores
  the envelope without the binding; with a password that does not, it fails with the
  password error of the hardware-bound branch and the store is unchanged. The import
  takes no host fingerprint, so the outcome cannot depend on one.
\<close>

theorem hardware_bound_import:
  assumes "truthy_bool (bar_portable_file pd)"
    and "case p_content_hash pd of None \<Rightarrow> True | Some h \<Rightarrow> \<not> is_blacklisted s h"
    and "p_encryption pd = Some e" and "hardware_id_hash e = Some hw"
    and "p_filename pd = Some name"
    and "p_creation_time pd = Some created" and "p_security pd = Some policy"
    and "metadata_files s new_id = None"
  shows "(decrypt_file_content L e password = Some content \<longrightarrow>
            fst (import_portable_file L now new_id s pd password) = Inr new_id \<and>
            map_option (\<lambda>f. encryption (meta f))
              (metadata_files (snd (import_portable_file L now new_id s pd password)) new_id)
            = Some (strip_binding e)) \<and>
         (decrypt_file_content L e password = None \<longrightarrow>
            import_portable_file L now new_id s pd password
            = (Inl (ImportFailed IncorrectPasswordOrBinding), s))"
proof -
  have nb: "\<not> (truthy_str (p_content_hash pd) \<and>
            (case p_content_hash pd of None \<Rightarrow> False | Some h \<Rightarrow> is_blacklisted s h))"
    using assms(2) by (cases "p_content_hash pd") simp_all
  have right: "fst (import_portable_file L now new_id s pd password) = Inr new_id \<and>
            map_option (\<lambda>f. encryption (meta f))
              (metadata_files (snd (import_portable_file L now new_id s pd password)) new_id)
            = Some (strip_binding e)"
    if d: "decrypt_file_content L e password = Some content"
    by (simp add: import_portable_file_success [OF assms(1) nb assms(3) assms(5-7) d assms(8)]
        assms(4))
  have wrong: "import_portable_file L now new_id s pd password
            = (Inl (ImportFailed IncorrectPasswordOrBinding), s)"
    if d: "decrypt_file_content L e password = None"
    using assms(1) nb
    by (simp add: import_portable_file_def assms(3) import_decrypt_failure [OF d] assms(4))
  show ?thesis using right wrong by blast
qed

theorem hardware_bound_import_witness:
  "hardware_id_hash bound_envelope = Some ''hw-of-another-machine'' \<and>
   decrypt_file_content toy_lib bound_envelope ''pw'' = Some [99] \<and>
   fst (import_portable_file toy_lib 5 ''id2'' empty_vault bound_portable ''pw'') = Inr ''id2'' \<and>
   map_option (\<lambda>f. encryption (meta f))
     (metadata_files (snd (import_portable_file toy_lib 5 ''id2'' empty_vault bound_portable ''pw''))
        ''id2'')
     = Some (strip_binding bound_envelope) \<and>
   decrypt_file_content toy_lib bound_envelope ''no'' = None \<and>
   import_portable_file toy_lib 5 ''id2'' empty_vault bound_portable ''no''
     = (Inl (ImportFailed IncorrectPasswordOrBinding), empty_vault)"
proof -
  have a: "truthy_bool (bar_portable_file bound_portable)"
    by (simp add: bound_portable_def example_portable_def truthy_bool_def)
  have b: "case p_content_hash bound_portable of None \<Rightarrow> True
           | Some h \<Rightarrow> \<not> is_blacklisted empty_vault h"
    by (simp add: bound_portable_def example_portable_def is_blacklisted_def empty_vault_def)
  have c: "p_encryption bound_portable = Some bound_envelope"
    and d: "p_filename bound_portable = Some ''a.txt''"
    and e: "p_creation_time bound_portable = Some ''t0''"
    and f: "p_security bound_portable = Some example_policy"
    by (simp_all add: bound_portable_def example_portable_def)
  have hw: "hardware_id_hash bound_envelope = Some ''hw-of-another-machine''"
    by (simp add: bound_envelope_def)
  have g: "metadata_files empty_vault ''id2'' = None"
    by (simp add: empty_vault_def)
  show ?thesis
    using hardware_bound_import [OF a b c hw d e f g, of toy_lib "''pw''" "[99]" 5]
      hardware_bound_import [OF a b c hw d e f g, of toy_lib "''no''" "[99]" 5]
      hw bound_decrypt_right bound_decrypt_wrong
    by simp
qed

section \<open>Access, lockout and destruction\<close>

lemma add_to_blacklist_files:
  assumes "blacklist_key L m \<noteq> []"
  shows "snd (add_to_blacklist L now s m)
         = s\<lparr>blacklist_files :=
               blacklist_after L now s m\<rparr>"
  using assms
  by (cases "content_hash m")
     (auto simp add: add_to_blacklist_def blacklist_after_def blacklist_key_def
        blacklist_entry_of_def truthy_str_def Let_def)

lemma manager_secure_delete_file_result:
  assumes "fid \<noteq> []" and "metadata_files s fid = Some f" and "writable f"
    and "blacklist_key L (meta f) \<noteq> []"
  shows "snd (manager_secure_delete_file L now s fid True)
         = s\<lparr>blacklist_files :=
               blacklist_after L now s (meta f),
             metadata_files := (metadata_files s)(fid := None)\<rparr>"
  using assms
  by (simp add: manager_secure_delete_file_def Let_def add_to_blacklist_files
      secure_delete_metadata_file_def)

lemma check_ignores_failed_attempts:
  "check_security_constraints now (m\<lparr>failed_password_attempts := x\<rparr>)
   = check_security_constraints now m"
  by (simp add: check_security_constraints_def cong: option.case_cong)

lemma blacklist_key_ignores_failed_attempts:
  "blacklist_key L (m\<lparr>failed_password_attempts := x\<rparr>) = blacklist_key L m"
  by (simp add: blacklist_key_def split: option.split)

lemma blacklist_entry_ignores_failed_attempts:
  "blacklist_entry_of L now (m\<lparr>failed_password_attempts := x\<rparr>) = blacklist_entry_of L now m"
  by (simp add: blacklist_entry_of_def blacklist_key_ignores_failed_attempts)

lemma blacklist_after_ignores_failed_attempts:
  "blacklist_after L now s (m\<lparr>failed_password_attempts := x\<rparr>) = blacklist_after L now s m"
  by (simp add: blacklist_after_def blacklist_key_ignores_failed_attempts
      blacklist_entry_ignores_failed_attempts)

lemma blacklist_after_ignores_metadata_files:
  "blacklist_after L now (s\<lparr>metadata_files := x\<rparr>) m = blacklist_after L now s m"
  by (simp add: blacklist_after_def)

lemma access_file_wrong_password:
  assumes "metadata_files s fid = Some f" and "writable f"
    and "check_security_constraints now (meta f)"
    and "decrypt_file_content L (encryption (meta f)) password = None"
    and "attempts_of (meta f) + 1 < 3"
  shows "access_file L now s fid password =
           (Inl (IncorrectPassword (3 - (attempts_of (meta f) + 1))),
            s\<lparr>metadata_files := (metadata_files s)(fid \<mapsto>
                 f\<lparr>meta := (meta f)\<lparr>failed_password_attempts :=
                                         Some (attempts_of (meta f) + 1)\<rparr>\<rparr>)\<rparr>)"
  using assms
  by (simp add: access_file_def Let_def attempts_of_def [symmetric] write_metadata_def
      max_failed_attempts_def)

lemma access_file_last_wrong_password:
  assumes "fid \<noteq> []" and "metadata_files s fid = Some f" and "writable f"
    and "check_security_constraints now (meta f)"
    and "decrypt_file_content L (encryption (meta f)) password = None"
    and "attempts_of (meta f) + 1 \<ge> 3"
    and "blacklist_key L (meta f) \<noteq> []"
  shows "access_file L now s fid password =
           (Inl PermanentlyDeleted,
            s\<lparr>blacklist_files :=
                 blacklist_after L now s (meta f),
               metadata_files := (metadata_files s)(fid := None)\<rparr>)"
proof -
  let ?m1 = "(meta f)\<lparr>failed_password_attempts := Some (attempts_of (meta f) + 1)\<rparr>"
  let ?s1 = "s\<lparr>metadata_files := (metadata_files s)(fid \<mapsto> f\<lparr>meta := ?m1\<rparr>)\<rparr>"
  have w: "write_metadata s fid ?m1 = Some ?s1"
    using assms(2,3) by (simp add: write_metadata_def)
  have d: "snd (manager_secure_delete_file L now ?s1 fid True)
         = ?s1\<lparr>blacklist_files :=
               blacklist_after L now ?s1 (meta (f\<lparr>meta := ?m1\<rparr>)),
             metadata_files := (metadata_files ?s1)(fid := None)\<rparr>"
    by (rule manager_secure_delete_file_result)
       (use assms in \<open>simp_all add: blacklist_key_ignores_failed_attempts\<close>)
  have "access_file L now s fid password
        = (Inl PermanentlyDeleted, snd (manager_secure_delete_file L now ?s1 fid True))"
    using assms(2,4,5,6)
    by (simp add: access_file_def Let_def attempts_of_def [symmetric] w max_failed_attempts_def)
  then show ?thesis
    by (simp add: d blacklist_after_ignores_failed_attempts blacklist_after_ignores_metadata_files)
qed

lemma three_wrong_passwords_run:
  assumes fid: "fid \<noteq> []" and entry: "metadata_files s fid = Some f" and w: "writable f"
    and zero: "attempts_of (meta f) = 0"
    and key: "blacklist_key L (meta f) \<noteq> []"
    and c1: "check_security_constraints t1 (meta f)"
    and c2: "check_security_constraints t2 (meta f)"
    and c3: "check_security_constraints t3 (meta f)"
    and p1: "decrypt_file_content L (encryption (meta f)) pw1 = None"
    and p2: "decrypt_file_content L (encryption (meta f)) pw2 = None"
    and p3: "decrypt_file_content L (encryption (meta f)) pw3 = None"
  shows "access_all L s fid [(t1, pw1), (t2, pw2), (t3, pw3)] =
           ([Inl (IncorrectPassword 2), Inl (IncorrectPassword 1), Inl PermanentlyDeleted],
            s\<lparr>blacklist_files :=
                 blacklist_after L t3 s (meta f),
               metadata_files := (metadata_files s)(fid := None)\<rparr>)"
proof -
  let ?f1 = "f\<lparr>meta := (meta f)\<lparr>failed_password_attempts := Some 1\<rparr>\<rparr>"
  let ?s1 = "s\<lparr>metadata_files := (metadata_files s)(fid \<mapsto> ?f1)\<rparr>"
  let ?f2 = "f\<lparr>meta := (meta f)\<lparr>failed_password_attempts := Some 2\<rparr>\<rparr>"
  let ?s2 = "s\<lparr>metadata_files := (metadata_files s)(fid \<mapsto> ?f2)\<rparr>"
  have a1: "access_file L t1 s fid pw1 = (Inl (IncorrectPassword 2), ?s1)"
    using access_file_wrong_password [OF entry w c1 p1] zero by simp
  have file1: "metadata_files ?s1 fid = Some ?f1" by simp
  have a2: "access_file L t2 ?s1 fid pw2 = (Inl (IncorrectPassword 1), ?s2)"
    using access_file_wrong_password [OF file1, of t2 L pw2] w c2 p2
    by (simp add: attempts_of_def check_ignores_failed_attempts)
  have file2: "metadata_files ?s2 fid = Some ?f2" by simp
  have a3: "access_file L t3 ?s2 fid pw3 =
              (Inl PermanentlyDeleted,
               s\<lparr>blacklist_files :=
                    blacklist_after L t3 s (meta f),
                  metadata_files := (metadata_files s)(fid := None)\<rparr>)"
    using access_file_last_wrong_password [OF fid file2, of t3 L pw3] w c3 p3 key
    by (simp add: attempts_of_def check_ignores_failed_attempts
        blacklist_key_ignores_failed_attempts blacklist_after_ignores_failed_attempts
        blacklist_after_ignores_metadata_files)
  show ?thesis by (simp add: a1 a2 a3)
qed

text \<open>
  C2, as amended. An entry whose constraints hold at the three calls, whose failed-attempt
  counter is 0 (or absent), whose metadata file can be written and whose blacklist file
  can be opened for writing: three calls with passwords that do not unseal it fail with
  2 attempts remaining, with 1 remaining, and with the permanent-deletion error;
  afterwards the metadata file is gone and the blacklist has a record under the entry's
  content hash when it has a non-empty one, and under the digest of its encryption
  dictionary otherwise. (When the blacklist file cannot be opened the entry is destroyed
  all the same and the blacklist is left as it was.)
\<close>

theorem three_wrong_passwords_destroy_entry:
  assumes "fid \<noteq> []" and "metadata_files s fid = Some f" and "writable f"
    and "attempts_of (meta f) = 0"
    and "blacklist_key L (meta f) \<noteq> []"
    and "check_security_constraints t1 (meta f)"
    and "check_security_constraints t2 (meta f)"
    and "check_security_constraints t3 (meta f)"
    and "decrypt_file_content L (encryption (meta f)) pw1 = None"
    and "decrypt_file_content L (encryption (meta f)) pw2 = None"
    and "decrypt_file_content L (encryption (meta f)) pw3 = None"
    and "blacklist_openable s (blacklist_path (blacklist_key L (meta f)))"
  shows "fst (access_all L s fid [(t1, pw1), (t2, pw2), (t3, pw3)])
           = [Inl (IncorrectPassword 2), Inl (IncorrectPassword 1), Inl PermanentlyDeleted] \<and>
         metadata_files (snd (access_all L s fid [(t1, pw1), (t2, pw2), (t3, pw3)])) fid = None \<and>
         is_blacklisted (snd (access_all L s fid [(t1, pw1), (t2, pw2), (t3, pw3)]))
           (blacklist_key L (meta f))"
  unfolding three_wrong_passwords_run [OF assms(1-11)]
  using assms(12) by (simp add: is_blacklisted_def blacklist_after_def)

lemma example_check: "check_security_constraints t example_metadata"
  by (simp add: check_security_constraints_def example_metadata_def example_policy_def
      truthy_int_def)

theorem three_wrong_passwords_destroy_entry_witness:
  "metadata_files example_vault ''id1'' = Some \<lparr>meta = example_metadata, writable = True\<rparr> \<and>
   blacklist_key toy_lib example_metadata = ''Hc'' \<and>
   blacklist_openable example_vault (blacklist_path ''Hc'') \<and>
   fst (access_all toy_lib example_vault ''id1'' [(1, ''no''), (2, ''bad''), (3, ''no'')])
     = [Inl (IncorrectPassword 2), Inl (IncorrectPassword 1), Inl PermanentlyDeleted] \<and>
   metadata_files
     (snd (access_all toy_lib example_vault ''id1'' [(1, ''no''), (2, ''bad''), (3, ''no'')]))
     ''id1'' = None \<and>
   is_blacklisted
     (snd (access_all toy_lib example_vault ''id1'' [(1, ''no''), (2, ''bad''), (3, ''no'')]))
     ''Hc''"
proof -
  have i: "''id1'' \<noteq> []" by simp
  have e: "metadata_files example_vault ''id1''
           = Some \<lparr>meta = example_metadata, writable = True\<rparr>"
    by (simp add: example_vault_def empty_vault_def)
  have w: "writable \<lparr>meta = example_metadata, writable = True\<rparr>" by simp
  have z: "attempts_of (meta \<lparr>meta = example_metadata, writable = True\<rparr>) = 0"
    by (simp add: attempts_of_def example_metadata_def)
  have kk: "blacklist_key toy_lib example_metadata = ''Hc''"
    by (simp add: blacklist_key_def example_metadata_def)
  have k: "blacklist_key toy_lib (meta \<lparr>meta = example_metadata, writable = True\<rparr>) \<noteq> []"
    by (simp add: kk)
  have c: "check_security_constraints t (meta \<lparr>meta = example_metadata, writable = True\<rparr>)" for t
    by (simp add: example_check)
  have enc: "encryption example_metadata = example_envelope"
    by (simp add: example_metadata_def)
  have bad: "decrypt_file_content toy_lib example_envelope ''bad'' = None"
    by (simp add: decrypt_file_content_def toy_lib_def example_envelope_def toy_b64decode_def
      decrypt_data_def derive_key_def toy_kdf_def toy_decrypt_def)
  have p1: "decrypt_file_content toy_lib
              (encryption (meta \<lparr>meta = example_metadata, writable = True\<rparr>)) ''no'' = None"
    by (simp add: enc example_decrypt_wrong)
  have p2: "decrypt_file_content toy_lib
              (encryption (meta \<lparr>meta = example_metadata, writable = True\<rparr>)) ''bad'' = None"
    by (simp add: enc bad)
  have o: "blacklist_openable example_vault
             (blacklist_path (blacklist_key toy_lib (meta \<lparr>meta = example_metadata, writable = True\<rparr>)))"
    by (simp add: kk example_vault_def empty_vault_def blacklist_path_def safe_hash_def)
  show ?thesis
    using three_wrong_passwords_destroy_entry [OF i e w z k c c c p1 p2 p1 o, of 1 2 3] e kk o
    by simp
qed

lemma created_envelope:
  "encrypt_file_content toy_lib [115] [110] ''t0'' [99] ''pw'' = example_envelope"
  by code_simp

lemma created_vault_eq:
  "created_vault =
     empty_vault\<lparr>metadata_files := [''id1'' \<mapsto> \<lparr>meta = created_metadata, writable = True\<rparr>]\<rparr>"
  by (simp add: created_vault_def create_secure_file_def Let_def created_envelope
      write_metadata_def empty_vault_def created_metadata_def example_policy_def)

lemma blacklist_path_Hc: "blacklist_path ''Hc'' = ''Hc.json''"
  by (simp add: blacklist_path_def safe_hash_def safe_char_def)

lemma blacklist_path_hcpw: "blacklist_path ''hcpw'' = ''hcpw.json''"
  by (simp add: blacklist_path_def safe_hash_def safe_char_def)

lemma created_digest: "envelope_hexdigest toy_lib example_envelope = ''hcpw''"
  by (simp add: toy_lib_def toy_hexdigest_def example_envelope_def)

lemma created_content_hash: "hash_content toy_lib [99] = ''Hc''"
  by code_simp

lemma access_file_absent:
  assumes "metadata_files s fid = None"
  shows "access_file L now s fid password = (Inl FileNotFound, s)"
  using assms by (simp add: access_file_def)

lemma access_file_constraints_fail:
  assumes "fid \<noteq> []" and "metadata_files s fid = Some f" and "writable f"
    and "\<not> check_security_constraints now (meta f)"
  shows "fst (access_file L now s fid password) = Inl PolicyViolation"
    and "metadata_files (snd (access_file L now s fid password)) fid = None"
  using assms manager_secure_delete_file_removes [OF assms(1-3), of L now True]
  by (simp_all add: access_file_def)

lemma expired_vault_run:
  "fst (access_all toy_lib expired_vault ''id1'' [(1, ''no''), (2, ''no''), (3, ''no'')])
     = [Inl PolicyViolation, Inl FileNotFound, Inl FileNotFound]"
proof -
  let ?f = "\<lparr>meta = example_metadata\<lparr>security := example_policy\<lparr>expiration_time := Some 0\<rparr>\<rparr>,
             writable = True\<rparr>"
  have i: "''id1'' \<noteq> []" by simp
  have e: "metadata_files expired_vault ''id1'' = Some ?f"
    by (simp add: expired_vault_def empty_vault_def)
  have w: "writable ?f" by simp
  have c: "\<not> check_security_constraints 1 (meta ?f)"
    by (simp add: check_security_constraints_def)
  obtain r s1 where a1: "access_file toy_lib 1 expired_vault ''id1'' ''no'' = (r, s1)"
    by (cases "access_file toy_lib 1 expired_vault ''id1'' ''no''")
  have r: "r = Inl PolicyViolation" and gone: "metadata_files s1 ''id1'' = None"
    using access_file_constraints_fail [OF i e w c, of toy_lib "''no''"] a1 by simp_all
  show ?thesis
    by (simp add: a1 r access_file_absent [OF gone])
qed

lemma twice_failed_vault_run:
  "fst (access_all toy_lib twice_failed_vault ''id1'' [(1, ''no''), (2, ''no''), (3, ''no'')])
     = [Inl PermanentlyDeleted, Inl FileNotFound, Inl FileNotFound]"
proof -
  let ?f = "\<lparr>meta = example_metadata\<lparr>failed_password_attempts := Some 2\<rparr>, writable = True\<rparr>"
  have i: "''id1'' \<noteq> []" by simp
  have e: "metadata_files twice_failed_vault ''id1'' = Some ?f"
    by (simp add: twice_failed_vault_def empty_vault_def)
  have w: "writable ?f" by simp
  have c: "check_security_constraints 1 (meta ?f)"
    by (simp add: check_ignores_failed_attempts example_check)
  have p: "decrypt_file_content toy_lib (encryption (meta ?f)) ''no'' = None"
    by (simp add: example_metadata_def example_decrypt_wrong)
  have a: "attempts_of (meta ?f) + 1 \<ge> 3"
    by (simp add: attempts_of_def)
  have k: "blacklist_key toy_lib (meta ?f) \<noteq> []"
    by (simp add: blacklist_key_def example_metadata_def)
  note a1 = access_file_last_wrong_password [OF i e w c p a k]
  show ?thesis
    by (simp add: a1 access_file_absent)
qed

lemma long_hash_vault_run:
  shows "fst (access_all toy_lib long_hash_vault ''id1'' [(1, ''no''), (2, ''no''), (3, ''no'')])
           = [Inl (IncorrectPassword 2), Inl (IncorrectPassword 1), Inl PermanentlyDeleted]"
    and "metadata_files
           (snd (access_all toy_lib long_hash_vault ''id1'' [(1, ''no''), (2, ''no''), (3, ''no'')]))
           ''id1'' = None"
    and "blacklist_files
           (snd (access_all toy_lib long_hash_vault ''id1'' [(1, ''no''), (2, ''no''), (3, ''no'')]))
         = Map.empty"
proof -
  let ?m = "example_metadata\<lparr>content_hash := Some long_hash\<rparr>"
  let ?f = "\<lparr>meta = ?m, writable = True\<rparr>"
  have i: "''id1'' \<noteq> []" by simp
  have e: "metadata_files long_hash_vault ''id1'' = Some ?f"
    by (simp add: long_hash_vault_def empty_vault_def)
  have w: "writable ?f" by simp
  have z: "attempts_of (meta ?f) = 0"
    by (simp add: attempts_of_def example_metadata_def)
  have nonempty: "long_hash \<noteq> []"
    by (simp add: long_hash_def)
  have kk: "blacklist_key toy_lib ?m = long_hash"
    using nonempty by (simp add: blacklist_key_def)
  have k: "blacklist_key toy_lib (meta ?f) \<noteq> []"
    using nonempty by (simp add: kk)
  have c: "check_security_constraints t (meta ?f)" for t
    by (simp add: check_security_constraints_def example_metadata_def example_policy_def
        truthy_int_def)
  have p: "decrypt_file_content toy_lib (encryption (meta ?f)) ''no'' = None"
    by (simp add: example_metadata_def example_decrypt_wrong)
  have too_long: "\<not> blacklist_openable long_hash_vault (blacklist_path long_hash)"
    by (simp add: long_hash_vault_def empty_vault_def blacklist_path_def safe_hash_def
        long_hash_def)
  have unchanged: "blacklist_after toy_lib 3 long_hash_vault ?m
                   = blacklist_files long_hash_vault"
    using too_long by (simp add: blacklist_after_def kk)
  have none: "blacklist_files long_hash_vault = Map.empty"
    by (simp add: long_hash_vault_def empty_vault_def)
  note run = three_wrong_passwords_run [OF i e w z k c c c p p p]
  show "fst (access_all toy_lib long_hash_vault ''id1'' [(1, ''no''), (2, ''no''), (3, ''no'')])
           = [Inl (IncorrectPassword 2), Inl (IncorrectPassword 1), Inl PermanentlyDeleted]"
    unfolding run by simp
  show "metadata_files
           (snd (access_all toy_lib long_hash_vault ''id1'' [(1, ''no''), (2, ''no''), (3, ''no'')]))
           ''id1'' = None"
    unfolding run by simp
  show "blacklist_files
           (snd (access_all toy_lib long_hash_vault ''id1'' [(1, ''no''), (2, ''no''), (3, ''no'')]))
         = Map.empty"
    unfolding run by (simp add: unchanged none)
qed

text \<open>
  C2 as stated fails on four stored entries. An entry whose expiration time has
  passed is destroyed by the first call with the policy error, and the third call finds
  no file. An entry whose counter is already 2 is destroyed by the first call, and the
  third call finds no file. An entry written by \<^verbatim>\<open>create_secure_file\<close> carries no
  content hash: after the three calls the only blacklist record is filed under the
  digest of its encryption dictionary, while the hash of its content (the
  \<open>content_hash\<close> an exported copy carries) is not blacklisted. An imported entry whose
  content hash has 300 characters is destroyed by the third call, but the blacklist
  file, whose name would have 305 characters, cannot be opened and no record is written.
\<close>

theorem three_wrong_passwords_counterexample:
  "fst (access_all toy_lib expired_vault ''id1'' [(1, ''no''), (2, ''no''), (3, ''no'')])
     = [Inl PolicyViolation, Inl FileNotFound, Inl FileNotFound] \<and>
   fst (access_all toy_lib twice_failed_vault ''id1'' [(1, ''no''), (2, ''no''), (3, ''no'')])
     = [Inl PermanentlyDeleted, Inl FileNotFound, Inl FileNotFound] \<and>
   fst (access_all toy_lib long_hash_vault ''id1'' [(1, ''no''), (2, ''no''), (3, ''no'')])
     = [Inl (IncorrectPassword 2), Inl (IncorrectPassword 1), Inl PermanentlyDeleted] \<and>
   metadata_files
     (snd (access_all toy_lib long_hash_vault ''id1'' [(1, ''no''), (2, ''no''), (3, ''no'')]))
     ''id1'' = None \<and>
   blacklist_files
     (snd (access_all toy_lib long_hash_vault ''id1'' [(1, ''no''), (2, ''no''), (3, ''no'')]))
     = Map.empty \<and>
   metadata_files created_vault ''id1'' = Some \<lparr>meta = created_metadata, writable = True\<rparr> \<and>
   content_hash created_metadata = None \<and>
   decrypt_file_content toy_lib (encryption created_metadata) ''pw'' = Some [99] \<and>
   fst (access_all toy_lib created_vault ''id1'' [(1, ''no''), (2, ''no''), (3, ''no'')])
     = [Inl (IncorrectPassword 2), Inl (IncorrectPassword 1), Inl PermanentlyDeleted] \<and>
   metadata_files
     (snd (access_all toy_lib created_vault ''id1'' [(1, ''no''), (2, ''no''), (3, ''no'')]))
     ''id1'' = None \<and>
   \<not> is_blacklisted
     (snd (access_all toy_lib created_vault ''id1'' [(1, ''no''), (2, ''no''), (3, ''no'')]))
     (hash_content toy_lib [99]) \<and>
   dom (blacklist_files
     (snd (access_all toy_lib created_vault ''id1'' [(1, ''no''), (2, ''no''), (3, ''no'')])))
     = {blacklist_path (envelope_hexdigest toy_lib example_envelope)}"
proof -
  let ?f = "\<lparr>meta = created_metadata, writable = True\<rparr>"
  have i: "''id1'' \<noteq> []" by simp
  have e: "metadata_files created_vault ''id1'' = Some ?f"
    by (simp add: created_vault_eq)
  have w: "writable ?f" by simp
  have z: "attempts_of (meta ?f) = 0"
    by (simp add: attempts_of_def created_metadata_def)
  have kk: "blacklist_key toy_lib created_metadata = ''hcpw''"
    by (simp add: blacklist_key_def created_metadata_def created_digest)
  have k: "blacklist_key toy_lib (meta ?f) \<noteq> []"
    by (simp add: kk)
  have c: "check_security_constraints t (meta ?f)" for t
    by (simp add: check_security_constraints_def created_metadata_def example_policy_def
        truthy_int_def)
  have enc: "encryption created_metadata = example_envelope"
    by (simp add: created_metadata_def)
  have p: "decrypt_file_content toy_lib (encryption (meta ?f)) ''no'' = None"
    by (simp add: enc example_decrypt_wrong)
  have run: "access_all toy_lib created_vault ''id1'' [(1, ''no''), (2, ''no''), (3, ''no'')] =
           ([Inl (IncorrectPassword 2), Inl (IncorrectPassword 1), Inl PermanentlyDeleted],
            created_vault\<lparr>blacklist_files :=
                 blacklist_after toy_lib 3 created_vault (meta ?f),
               metadata_files := (metadata_files created_vault)(''id1'' := None)\<rparr>)"
    by (rule three_wrong_passwords_run [OF i e w z k c c c p p p])
  have empty: "blacklist_files created_vault = Map.empty"
    by (simp add: created_vault_eq empty_vault_def)
  have nohash: "content_hash created_metadata = None"
    by (simp add: created_metadata_def)
  have openable: "blacklist_openable created_vault ''hcpw.json''"
    by (simp add: created_vault_eq empty_vault_def)
  have created: "metadata_files created_vault ''id1'' = Some \<lparr>meta = created_metadata, writable = True\<rparr> \<and>
   content_hash created_metadata = None \<and>
   decrypt_file_content toy_lib (encryption created_metadata) ''pw'' = Some [99] \<and>
   fst (access_all toy_lib created_vault ''id1'' [(1, ''no''), (2, ''no''), (3, ''no'')])
     = [Inl (IncorrectPassword 2), Inl (IncorrectPassword 1), Inl PermanentlyDeleted] \<and>
   metadata_files
     (snd (access_all toy_lib created_vault ''id1'' [(1, ''no''), (2, ''no''), (3, ''no'')]))
     ''id1'' = None \<and>
   \<not> is_blacklisted
     (snd (access_all toy_lib created_vault ''id1'' [(1, ''no''), (2, ''no''), (3, ''no'')]))
     (hash_content toy_lib [99]) \<and>
   dom (blacklist_files
     (snd (access_all toy_lib created_vault ''id1'' [(1, ''no''), (2, ''no''), (3, ''no'')])))
     = {blacklist_path (envelope_hexdigest toy_lib example_envelope)}"
    unfolding run
    by (simp add: e enc example_decrypt_right kk empty is_blacklisted_def created_content_hash
        created_digest blacklist_path_Hc blacklist_path_hcpw nohash blacklist_after_def
        openable)
  show ?thesis
    by (rule conjI [OF expired_vault_run conjI [OF twice_failed_vault_run
          conjI [OF long_hash_vault_run(1) conjI [OF long_hash_vault_run(2)
            conjI [OF long_hash_vault_run(3) created]]]]])
qed

lemma manager_secure_delete_file_keeps_absent:
  assumes "metadata_files s fid = None"
  shows "metadata_files (snd (manager_secure_delete_file L now s j b)) fid = None"
  using manager_secure_delete_file_shrinks [of L now s j b] assms by auto

lemma monitor_files_keeps_absent:
  assumes "metadata_files s fid = None"
  shows "metadata_files (monitor_files L now s fids) fid = None"
  using assms
proof (induction fids arbitrary: s)
  case Nil
  then show ?case by simp
next
  case (Cons j fids)
  show ?case
  proof (cases "metadata_files s j")
    case None
    then show ?thesis using Cons by simp
  next
    case (Some g)
    show ?thesis
    proof (cases "check_security_constraints now (meta g)")
      case True
      then show ?thesis using Some Cons by simp
    next
      case False
      have "metadata_files (snd (manager_secure_delete_file L now s (file_id (meta g)) True)) fid
            = None"
        by (rule manager_secure_delete_file_keeps_absent) (rule Cons.prems)
      then show ?thesis using Some False Cons.IH by simp
    qed
  qed
qed

lemma monitor_files_destroys:
  assumes "fid \<noteq> []" and "metadata_files s fid = Some f" and "writable f"
    and "file_id (meta f) = fid" and "\<not> check_security_constraints now (meta f)"
    and "fid \<in> set fids"
  shows "metadata_files (monitor_files L now s fids) fid = None"
  using assms(2,6)
proof (induction fids arbitrary: s)
  case Nil
  then show ?case by simp
next
  case (Cons j fids)
  show ?case
  proof (cases "j = fid")
    case True
    have "metadata_files (snd (manager_secure_delete_file L now s fid True)) fid = None"
      using manager_secure_delete_file_removes [OF assms(1) Cons.prems(1) assms(3), of L now True]
      by simp
    then have "metadata_files
                 (monitor_files L now (snd (manager_secure_delete_file L now s fid True)) fids) fid
               = None"
      by (rule monitor_files_keeps_absent)
    then show ?thesis using True Cons.prems(1) assms(4,5) by simp
  next
    case False
    then have later: "fid \<in> set fids" using Cons.prems(2) by simp
    show ?thesis
    proof (cases "metadata_files s j")
      case None
      then show ?thesis using Cons.IH [OF Cons.prems(1) later] by simp
    next
      case (Some g)
      show ?thesis
      proof (cases "check_security_constraints now (meta g)")
        case True
        then show ?thesis using Some Cons.IH [OF Cons.prems(1) later] by simp
      next
        case unmet: False
        let ?s' = "snd (manager_secure_delete_file L now s (file_id (meta g)) True)"
        have "metadata_files ?s' fid = None \<or> metadata_files ?s' fid = Some f"
          using manager_secure_delete_file_shrinks [of L now s "file_id (meta g)" True]
            Cons.prems(1) by (auto split: if_splits)
        then have "metadata_files (monitor_files L now ?s' fids) fid = None"
        proof
          assume "metadata_files ?s' fid = None"
          then show ?thesis by (rule monitor_files_keeps_absent)
        next
          assume "metadata_files ?s' fid = Some f"
          then show ?thesis using later by (rule Cons.IH)
        qed
        then show ?thesis using Some unmet by simp
      qed
    qed
  qed
qed

lemma access_file_last_access:
  assumes entry: "metadata_files s fid = Some f" and w: "writable f"
    and limit: "max_access_count (security (meta f)) = Some 1"
    and count: "access_count (meta f) = 0"
    and ok: "check_security_constraints now (meta f)"
    and pw: "decrypt_file_content L (encryption (meta f)) password = Some content"
  shows "access_file L now s fid password =
           (Inr (content, (meta f)\<lparr>failed_password_attempts := Some 0, last_accessed := now,
                                   access_count := 1\<rparr>),
            s\<lparr>metadata_files := (metadata_files s)(fid \<mapsto>
                 f\<lparr>meta := (meta f)\<lparr>failed_password_attempts := Some 0, last_accessed := now,
                                       access_count := 1\<rparr>\<rparr>),
               scheduled := scheduled s @ [fid]\<rparr>)"
  using assms
  by (simp add: access_file_def Let_def write_metadata_def truthy_int_def)

lemma check_fails_when_exhausted:
  assumes "max_access_count (security m) = Some 1" and "access_count m = 1"
  shows "\<not> check_security_constraints later m"
  using assms by (simp add: check_security_constraints_def truthy_int_def)

text \<open>
  C6. An entry limited to one access that has not been accessed, with no constraint
  violated: the first access with the correct password returns the content, and the
  destruction is only scheduled (the thread is in \<open>scheduled\<close> when the call returns).
  From then on the entry is out of reach. Before the thread has run, any access fails
  with the policy error and removes the entry, and a sweep that lists it removes it;
  once the thread has run the file is gone, an access finds nothing and a sweep leaves
  it absent.
\<close>

theorem single_access_entry:
  assumes fid: "fid \<noteq> []" and entry: "metadata_files s fid = Some f" and w: "writable f"
    and own: "file_id (meta f) = fid"
    and limit: "max_access_count (security (meta f)) = Some 1"
    and count: "access_count (meta f) = 0"
    and ok: "check_security_constraints now (meta f)"
    and pw: "decrypt_file_content L (encryption (meta f)) password = Some content"
  shows "let s1 = snd (access_file L now s fid password);
             destroyed = snd (manager_secure_delete_file L later s1 fid True)
         in fst (access_file L now s fid password)
              = Inr (content, (meta f)\<lparr>failed_password_attempts := Some 0, last_accessed := now,
                                      access_count := 1\<rparr>) \<and>
            scheduled s1 = scheduled s @ [fid] \<and>
            fst (access_file L later s1 fid any_password) = Inl PolicyViolation \<and>
            metadata_files (snd (access_file L later s1 fid any_password)) fid = None \<and>
            (fid \<in> set fids \<longrightarrow> metadata_files (monitor_files L later s1 fids) fid = None) \<and>
            metadata_files destroyed fid = None \<and>
            access_file L latest destroyed fid any_password = (Inl FileNotFound, destroyed) \<and>
            metadata_files (monitor_files L latest destroyed fids) fid = None"
proof -
  let ?m1 = "(meta f)\<lparr>failed_password_attempts := Some 0, last_accessed := now, access_count := 1\<rparr>"
  let ?f1 = "f\<lparr>meta := ?m1\<rparr>"
  let ?s1 = "s\<lparr>metadata_files := (metadata_files s)(fid \<mapsto> ?f1), scheduled := scheduled s @ [fid]\<rparr>"
  let ?d = "snd (manager_secure_delete_file L later ?s1 fid True)"
  have first: "access_file L now s fid password = (Inr (content, ?m1), ?s1)"
    by (rule access_file_last_access [OF entry w limit count ok pw])
  have entry1: "metadata_files ?s1 fid = Some ?f1" by simp
  have w1: "writable ?f1" using w by simp
  have own1: "file_id (meta ?f1) = fid" using own by simp
  have unmet: "\<not> check_security_constraints t (meta ?f1)" for t
    by (rule check_fails_when_exhausted) (simp_all add: limit)
  have gone: "metadata_files (snd (manager_secure_delete_file L t ?s1 fid True)) fid = None" for t
    using manager_secure_delete_file_removes [OF fid entry1 w1, of L t True] by simp
  have second: "access_file L later ?s1 fid any_password
                = (Inl PolicyViolation, snd (manager_secure_delete_file L later ?s1 fid True))"
    using unmet [of later] by (simp add: access_file_def)
  have sweep: "metadata_files (monitor_files L later ?s1 fids) fid = None" if "fid \<in> set fids"
    by (rule monitor_files_destroys [OF fid entry1 w1 own1 unmet that])
  have after: "access_file L latest ?d fid any_password = (Inl FileNotFound, ?d)"
    using gone [of later] by (simp add: access_file_def)
  have sweep_after: "metadata_files (monitor_files L latest ?d fids) fid = None"
    by (rule monitor_files_keeps_absent) (rule gone)
  show ?thesis
    unfolding Let_def first using second gone [of later] sweep after sweep_after
    by (simp del: monitor_files.simps)
qed

theorem single_access_entry_witness:
  "metadata_files single_use_vault ''id1'' = Some \<lparr>meta = single_use_metadata, writable = True\<rparr> \<and>
   max_access_count (security single_use_metadata) = Some 1 \<and>
   check_security_constraints 5 single_use_metadata \<and>
   fst (access_file toy_lib 5 single_use_vault ''id1'' ''pw'')
     = Inr ([99], single_use_metadata\<lparr>failed_password_attempts := Some 0, last_accessed := 5,
                                        access_count := 1\<rparr>) \<and>
   fst (access_file toy_lib 6 (snd (access_file toy_lib 5 single_use_vault ''id1'' ''pw''))
          ''id1'' ''pw'') = Inl PolicyViolation \<and>
   metadata_files
     (snd (access_file toy_lib 6 (snd (access_file toy_lib 5 single_use_vault ''id1'' ''pw''))
             ''id1'' ''pw'')) ''id1'' = None \<and>
   metadata_files
     (monitor_files toy_lib 6 (snd (access_file toy_lib 5 single_use_vault ''id1'' ''pw''))
        [''id1'']) ''id1'' = None \<and>
   fst (access_file toy_lib 7
          (snd (manager_secure_delete_file toy_lib 6
                  (snd (access_file toy_lib 5 single_use_vault ''id1'' ''pw'')) ''id1'' True))
          ''id1'' ''pw'') = Inl FileNotFound"
proof -
  let ?f = "\<lparr>meta = single_use_metadata, writable = True\<rparr>"
  have i: "''id1'' \<noteq> []" by simp
  have e: "metadata_files single_use_vault ''id1'' = Some ?f"
    by (simp add: single_use_vault_def empty_vault_def)
  have w: "writable ?f" by simp
  have o: "file_id (meta ?f) = ''id1''"
    by (simp add: single_use_metadata_def example_metadata_def)
  have l: "max_access_count (security (meta ?f)) = Some 1"
    by (simp add: single_use_metadata_def)
  have n: "access_count (meta ?f) = 0"
    by (simp add: single_use_metadata_def example_metadata_def)
  have c: "check_security_constraints 5 (meta ?f)"
    by (simp add: check_security_constraints_def single_use_metadata_def example_metadata_def
        example_policy_def truthy_int_def)
  have p: "decrypt_file_content toy_lib (encryption (meta ?f)) ''pw'' = Some [99]"
    by (simp add: single_use_metadata_def example_metadata_def example_decrypt_right)
  show ?thesis
    using single_access_entry [OF i e w o l n c p, of 6 "''pw''" "[''id1'']" 7] e l c
    by (simp add: Let_def del: monitor_files.simps)
qed

section \<open>Secure deletion\<close>

lemma write_chunks_length:
  assumes "4096 \<le> length pattern"
  shows "length (write_chunks pattern file_size bytes_written written)
         = length written + (file_size - bytes_written)"
  using assms
proof (induction pattern file_size bytes_written written rule: write_chunks.induct)
  case (1 pattern file_size bytes_written written)
  show ?case
  proof (cases "bytes_written < file_size")
    case True
    have step: "write_chunks pattern file_size bytes_written written
                = write_chunks pattern file_size
                    (bytes_written + min 4096 (file_size - bytes_written))
                    (written @ take (min 4096 (file_size - bytes_written)) pattern)"
      using True by (subst write_chunks.simps) (simp add: Let_def)
    show ?thesis
      unfolding step using "1.IH" [OF True refl "1.prems"] "1.prems" True
      by (auto simp add: min_def)
  next
    case False
    then show ?thesis by (subst write_chunks.simps) simp
  qed
qed

lemma write_chunks_replicate:
  "write_chunks (replicate 4096 b) file_size bytes_written written
   = written @ replicate (file_size - bytes_written) b"
proof (induction "replicate 4096 b" file_size bytes_written written rule: write_chunks.induct)
  case (1 file_size bytes_written written)
  show ?case
  proof (cases "bytes_written < file_size")
    case True
    have "written @ replicate (min 4096 (file_size - bytes_written)) b
            @ replicate (file_size - (bytes_written + min 4096 (file_size - bytes_written))) b
          = written @ replicate (file_size - bytes_written) b"
      by (simp add: replicate_add [symmetric] min_def)
    moreover have "write_chunks (replicate 4096 b) file_size bytes_written written
                = write_chunks (replicate 4096 b) file_size
                    (bytes_written + min 4096 (file_size - bytes_written))
                    (written @ take (min 4096 (file_size - bytes_written)) (replicate 4096 b))"
      using True by (subst write_chunks.simps) (simp add: Let_def)
    ultimately show ?thesis
      using "1.hyps" [OF True refl] by (simp add: min_def)
  next
    case False
    then show ?thesis by (subst write_chunks.simps) simp
  qed
qed

lemma overwrite_passes_no_fault:
  assumes "\<And>step. \<not> fails step"
  shows "fst (overwrite_passes fails urandom file_size pass_nums content)"
  using assms by (induction pass_nums arbitrary: content) simp_all

lemma secure_delete_file_unopenable:
  assumes "fs file_path = Some (RegularFile content False)"
  shows "secure_delete_file fails urandom fs file_path passes = (False, fs)"
  using assms by (simp add: secure_delete_file_def)

lemma secure_delete_file_complete:
  assumes "fs file_path = Some (RegularFile content True)" and "\<And>step. \<not> fails step"
  shows "secure_delete_file fails urandom fs file_path passes = (True, fs(file_path := None))"
proof -
  obtain content1 where
    "overwrite_passes fails urandom (length content) [0..<nat passes] content = (True, content1)"
    using overwrite_passes_no_fault [of fails urandom "length content" "[0..<nat passes]" content]
      assms(2)
    by (cases "overwrite_passes fails urandom (length content) [0..<nat passes] content") simp
  then show ?thesis using assms by (simp add: secure_delete_file_def)
qed

lemma secure_delete_file_removed_iff:
  assumes "fs file_path \<noteq> None"
  shows "(snd (secure_delete_file fails urandom fs file_path passes) file_path = None)
         = fst (secure_delete_file fails urandom fs file_path passes)"
  using assms
  by (auto simp add: secure_delete_file_def split: option.split fs_node.split prod.split bool.split)

lemma secure_delete_file_when_only_open_fails:
  assumes "fs file_path = Some (RegularFile content may_write)" and "\<And>step. \<not> fails step"
  shows "secure_delete_file fails urandom fs file_path passes
         = (may_write, if may_write then fs(file_path := None) else fs)"
proof (cases may_write)
  case True
  then show ?thesis using secure_delete_file_complete [of fs file_path content fails] assms by simp
next
  case False
  then show ?thesis using secure_delete_file_unopenable [of fs file_path content] assms by simp
qed

lemma secure_delete_file_second_pass_fails:
  "secure_delete_file second_pass_fails example_urandom writable_fs ''vault/metadata/id1.json''
     DEFAULT_PASSES
   = (False, [''vault/metadata/id1.json'' \<mapsto> RegularFile [0, 0, 0] True])"
proof -
  have passes: "[0..<nat DEFAULT_PASSES] = [0, 1, 2]"
    by (simp add: DEFAULT_PASSES_def upt_rec)
  have zeros: "replicate 3 (0 :: byte) = [0, 0, 0]"
    by (simp add: numeral_3_eq_3)
  show ?thesis
    by (simp add: secure_delete_file_def writable_fs_def passes second_pass_fails_def
        pass_pattern_def write_chunks_replicate overwrite_from_start_def zeros)
qed

text \<open>
  C7. Where the claim and the code part: a regular file that cannot be opened for
  writing makes \<^verbatim>\<open>secure_delete_file\<close> return \<^verbatim>\<open>False\<close> with the file still in place, and
  a failure in the second pass stops the deletion with the file still in place (its
  content overwritten by the first pass only). \<^verbatim>\<open>FileManager._secure_delete_file\<close> then
  reports \<^verbatim>\<open>True\<close> although the metadata file is still there: its \<^verbatim>\<open>os.remove\<close> fallback
  is never reached.
\<close>

theorem secure_delete_file_no_unlink_fallback:
  "secure_delete_file no_fault example_urandom read_only_fs ''vault/metadata/id1.json'' DEFAULT_PASSES
     = (False, read_only_fs) \<and>
   secure_delete_file second_pass_fails example_urandom writable_fs ''vault/metadata/id1.json''
     DEFAULT_PASSES
     = (False, [''vault/metadata/id1.json'' \<mapsto> RegularFile [0, 0, 0] True]) \<and>
   read_only_fs ''vault/metadata/id1.json'' = Some (RegularFile [1, 2, 3] False) \<and>
   fst (manager_secure_delete_file toy_lib 5 locked_vault ''id1'' True) = True \<and>
   metadata_files (snd (manager_secure_delete_file toy_lib 5 locked_vault ''id1'' True)) ''id1''
     = Some \<lparr>meta = example_metadata, writable = False\<rparr>"
proof -
  have a: "read_only_fs ''vault/metadata/id1.json'' = Some (RegularFile [1, 2, 3] False)"
    by (simp add: read_only_fs_def)
  have b: "metadata_files locked_vault ''id1'' = Some \<lparr>meta = example_metadata, writable = False\<rparr>"
    by (simp add: locked_vault_def empty_vault_def)
  show ?thesis
    using a b secure_delete_file_second_pass_fails
    by (simp add: secure_delete_file_unopenable
          [where fs = read_only_fs and file_path = "''vault/metadata/id1.json''", OF a]
        manager_secure_delete_file_def Let_def
        secure_delete_metadata_file_cases add_to_blacklist_metadata_files)
qed

end
